theory Spec2Isabelle
  imports Main
begin

section \<open>Python values and the library functions the code calls\<close>

text \<open>
  A Python \<open>str\<close> is the list of its code points; \<open>lit\<close> writes an ASCII
  literal. The two markers the code puts in front of its observations are the code
  points U+2705 and U+274C.
\<close>

type_synonym pystr = "nat list"

definition lit :: "string \<Rightarrow> pystr" where
  "lit s = map of_char s"

definition check_mark :: pystr where
  "check_mark = [0x2705]"

definition cross_mark :: pystr where
  "cross_mark = [0x274C]"

definition newline :: pystr where
  "newline = [10]"

definition apostrophe :: pystr where
  "apostrophe = [39]"

text \<open>
  The values that arrive as JSON, in a request or in the arguments of a tool call:
  strings, integers, and \<open>POther\<close> for every other value (null, booleans, floats,
  arrays, objects). The code hands such values on or has them refused by the schema of
  a tool; it never looks inside a value that is not a string.
\<close>

datatype pyval = PStr pystr | PInt int | POther

type_synonym pydict = "(pystr \<times> pyval) list"

text \<open>
  What the code leaves to Python and its libraries is a parameter of the model:
  \<open>str.lower\<close>, \<open>int\<close> on a string (\<open>None\<close> where it raises
  \<open>ValueError\<close>), the code points above ASCII that the regular expression class
  \<open>\w\<close> matches, and the text of the observation that the prebuilt \<open>ToolNode\<close>
  writes for a tool call it cannot run (the name and the arguments of the call are given).
\<close>

record library =
  py_lower :: "pystr \<Rightarrow> pystr"
  py_int :: "pystr \<Rightarrow> int option"
  py_word :: "nat \<Rightarrow> bool"
  tool_error :: "pystr \<Rightarrow> pydict \<Rightarrow> pystr"

fun startswith :: "pystr \<Rightarrow> pystr \<Rightarrow> bool" where
  "startswith s [] = True"
| "startswith [] (p # ps) = False"
| "startswith (c # cs) (p # ps) = (c = p \<and> startswith cs ps)"

text \<open>\<open>py_in k s\<close> is Python's \<open>k in s\<close> on two strings.\<close>

fun py_in :: "pystr \<Rightarrow> pystr \<Rightarrow> bool" where
  "py_in k [] = (k = [])"
| "py_in k (c # cs) = (startswith (c # cs) k \<or> py_in k cs)"

text \<open>\<open>any(keyword in text for keyword in keywords)\<close>\<close>

definition any_keyword_in :: "pystr list \<Rightarrow> pystr \<Rightarrow> bool" where
  "any_keyword_in keywords s = list_ex (\<lambda>keyword. py_in keyword s) keywords"

text \<open>\<open>str\<close> of a status code.\<close>

fun str_nat :: "nat \<Rightarrow> pystr" where
  "str_nat n = (if n < 10 then [48 + n] else str_nat (n div 10) @ [48 + n mod 10])"

declare str_nat.simps [simp del]

text \<open>
  The class \<open>\w\<close> of a \<open>str\<close> pattern: letters, digits and the underscore within
  ASCII, and what the library says above it.
\<close>

definition is_word_char :: "library \<Rightarrow> nat \<Rightarrow> bool" where
  "is_word_char lib c =
     (if c < 128
      then (48 \<le> c \<and> c \<le> 57) \<or> (65 \<le> c \<and> c \<le> 90) \<or> c = 95 \<or> (97 \<le> c \<and> c \<le> 122)
      else py_word lib c)"

fun strip_prefix :: "pystr \<Rightarrow> pystr \<Rightarrow> pystr option" where
  "strip_prefix [] s = Some s"
| "strip_prefix (p # ps) [] = None"
| "strip_prefix (p # ps) (c # cs) = (if p = c then strip_prefix ps cs else None)"

text \<open>
  \<open>re_search_ticket_id lib s\<close> is group 1 of
  \<open>re.search(r'Ticket ID:\*\* #(\w+)', s)\<close>, \<open>None\<close> when there is no match: the
  leftmost place where the literal \<open>Ticket ID:** #\<close> is followed by a word character,
  and the longest run of word characters there.
\<close>

definition match_ticket_id_here :: "library \<Rightarrow> pystr \<Rightarrow> pystr option" where
  "match_ticket_id_here lib s =
     (case strip_prefix (lit ''Ticket ID:** #'') s of
        None \<Rightarrow> None
      | Some rest \<Rightarrow>
          (case takeWhile (is_word_char lib) rest of [] \<Rightarrow> None | w # ws \<Rightarrow> Some (w # ws)))"

fun re_search_ticket_id :: "library \<Rightarrow> pystr \<Rightarrow> pystr option" where
  "re_search_ticket_id lib [] = None"
| "re_search_ticket_id lib (c # cs) =
     (case match_ticket_id_here lib (c # cs) of
        Some g \<Rightarrow> Some g
      | None \<Rightarrow> re_search_ticket_id lib cs)"

section \<open>The ticketing tools\<close>

text \<open>
  \<open>Config\<close> holds the three settings the code reads. The Freshdesk endpoint is a
  function from the posted ticket to what \<open>requests.post\<close> does: it raises, or it
  returns a response. The body of a response is \<open>None\<close> when \<open>response.json()\<close>
  raises, and otherwise either a JSON object or some other JSON term; the entries of an
  object are kept as the text \<open>str\<close> gives them, which is all the code uses.
\<close>

record config =
  OPENAI_API_KEY :: pystr
  FRESHDESK_DOMAIN :: pystr
  FRESHDESK_API_KEY :: pystr

record ticket_payload =
  p_description :: pystr
  p_subject :: pystr
  p_email :: pystr
  p_priority :: int
  p_status :: int

datatype raised = Timeout | ConnectionError | OtherError

datatype json_body = JObject "(pystr \<times> pystr) list" | JNotObject

record http_response =
  resp_ok :: bool
  resp_status_code :: nat
  resp_text :: pystr
  resp_json :: "json_body option"

type_synonym gateway = "ticket_payload \<Rightarrow> raised + http_response"

definition priority_names :: "(int \<times> pystr) list" where
  "priority_names =
     [(1, lit ''Low''), (2, lit ''Medium''), (3, lit ''High''), (4, lit ''Urgent'')]"

definition dict_get :: "('k \<times> pystr) list \<Rightarrow> 'k \<Rightarrow> pystr \<Rightarrow> pystr" where
  "dict_get d k dflt = (case map_of d k of None \<Rightarrow> dflt | Some v \<Rightarrow> v)"

definition auth_failed_text :: pystr where
  "auth_failed_text =
     cross_mark @ lit '' Authentication failed with Freshdesk. Please check API credentials.''"

definition auth_failed_text_lg :: pystr where
  "auth_failed_text_lg =
     cross_mark
     @ lit '' Authentication failed with Freshdesk. Please check the API credentials.''"

definition email_failed_text :: pystr where
  "email_failed_text =
     cross_mark @ lit '' Email validation failed. Please provide a valid email address.''"

definition config_issue_text :: pystr where
  "config_issue_text =
     cross_mark
     @ lit '' Unable to create tickets due to configuration issues. Please contact support directly.''"

definition config_issue_text_lg :: pystr where
  "config_issue_text_lg =
     lit ''I apologize, but I'' @ apostrophe
     @ lit ''m unable to create tickets at the moment due to configuration issues. Please contact support directly.''"

definition unexpected_error_text :: pystr where
  "unexpected_error_text =
     cross_mark
     @ lit '' Unexpected error while creating ticket. Please contact support directly.''"

definition unexpected_error_text_lg :: pystr where
  "unexpected_error_text_lg =
     cross_mark
     @ lit '' I encountered an unexpected error while creating your ticket. Please contact our support team directly.''"

definition timeout_text :: pystr where
  "timeout_text = cross_mark @ lit '' Request timed out. Please try again.''"

definition connection_text :: pystr where
  "connection_text =
     cross_mark @ lit '' Cannot connect to Freshdesk. Please check your internet connection.''"

definition api_error_text :: "pystr \<Rightarrow> pystr" where
  "api_error_text m = cross_mark @ lit '' Freshdesk API error: '' @ m"

definition status_error_text :: "nat \<Rightarrow> pystr \<Rightarrow> pystr" where
  "status_error_text status_code error_text =
     cross_mark @ lit '' Freshdesk API error '' @ str_nat status_code @ lit '': '' @ error_text"

definition success_text :: "pystr \<Rightarrow> pystr \<Rightarrow> pystr \<Rightarrow> pystr \<Rightarrow> pystr" where
  "success_text ticket_id subject priority_name ticket_url =
     check_mark @ lit '' **Support ticket created successfully!**'' @ newline @ newline
     @ lit ''**Ticket ID:** #'' @ ticket_id @ newline
     @ lit ''**Subject:** '' @ subject @ newline
     @ lit ''**Priority:** '' @ priority_name @ newline @ newline
     @ lit ''**View your ticket:** '' @ ticket_url @ newline @ newline
     @ lit ''Our IT support team will review your request and respond within 24 hours. You''
     @ apostrophe @ lit ''ll receive email updates as we work on your issue.''"

text \<open>
  What the tools do with a response, from \<open>if not response.ok\<close> to the final
  \<open>return\<close>. The inner bare \<open>except\<close> turns a body that is not JSON, or not an
  object, into the text with the status code and the raw body. On the success path the
  same failures, and an object without \<open>id\<close>, leave the \<open>try\<close> as exceptions.
\<close>

definition render_response ::
  "library \<Rightarrow> pystr \<Rightarrow> pystr \<Rightarrow> pystr \<Rightarrow> int \<Rightarrow> http_response \<Rightarrow> raised + pystr" where
  "render_response lib auth_text domain subject priority response =
     (if \<not> resp_ok response then
        (let error_text = resp_text response in
         case resp_json response of
           Some (JObject error_json) \<Rightarrow>
             if map_of error_json (lit ''code'') = Some (lit ''invalid_credentials'')
             then Inr auth_text
             else if py_in (lit ''email'') (py_lower lib error_text) then Inr email_failed_text
             else Inr (api_error_text
                         (dict_get error_json (lit ''message'') (lit ''Unknown error'')))
         | _ \<Rightarrow> Inr (status_error_text (resp_status_code response) error_text))
      else
        (case resp_json response of
           Some (JObject ticket) \<Rightarrow>
             (case map_of ticket (lit ''id'') of
                None \<Rightarrow> Inl OtherError
              | Some ticket_id \<Rightarrow>
                  (let ticket_url = lit ''https://'' @ domain @ lit ''/a/tickets/'' @ ticket_id;
                       priority_name = dict_get priority_names priority (lit ''Medium'')
                   in Inr (success_text ticket_id subject priority_name ticket_url)))
         | _ \<Rightarrow> Inl OtherError))"

text \<open>\<open>encode('ascii')\<close> succeeds on code points below 128 only.\<close>

definition is_ascii :: "nat \<Rightarrow> bool" where
  "is_ascii c = (c < 128)"

text \<open>
  The \<open>try\<close> body the two tools share word for word, up to the two texts that differ.
  The result is the returned text or the exception that leaves the body, together with
  the tickets handed to \<open>requests.post\<close> (none, or the one request).
  \<open>int(priority)\<close> and \<open>encode('ascii')\<close> are the two places that can raise
  before the request.
\<close>

definition ticket_tool_body ::
  "library \<Rightarrow> pystr \<Rightarrow> pystr \<Rightarrow> config \<Rightarrow> gateway \<Rightarrow> pystr \<Rightarrow> pystr \<Rightarrow> pystr \<Rightarrow> pystr
     \<Rightarrow> (raised + pystr) \<times> ticket_payload list" where
  "ticket_tool_body lib config_text auth_text cfg post subject description priority email =
     (let domain = FRESHDESK_DOMAIN cfg; api_key = FRESHDESK_API_KEY cfg in
      if domain = [] \<or> api_key = [] \<or> api_key = lit ''your-freshdesk-api-key-here''
      then (Inr config_text, [])
      else
        (case py_int lib priority of
           None \<Rightarrow> (Inl OtherError, [])
         | Some p \<Rightarrow>
             (let ticket_data = \<lparr>p_description = description, p_subject = subject,
                                 p_email = email, p_priority = p, p_status = 2\<rparr>
              in if \<not> list_all is_ascii api_key then (Inl OtherError, [])
                 else
                   (case post ticket_data of
                      Inl e \<Rightarrow> (Inl e, [ticket_data])
                    | Inr response \<Rightarrow>
                        (render_response lib auth_text domain subject p response,
                         [ticket_data])))))"

text \<open>\<open>agents.py\<close>: a single \<open>except Exception\<close> closes the body.\<close>

definition create_freshdesk_ticket ::
  "library \<Rightarrow> config \<Rightarrow> gateway \<Rightarrow> pystr \<Rightarrow> pystr \<Rightarrow> pystr \<Rightarrow> pystr
     \<Rightarrow> pystr \<times> ticket_payload list" where
  "create_freshdesk_ticket lib cfg post subject description priority email =
     (case ticket_tool_body lib config_issue_text auth_failed_text cfg post
             subject description priority email of
        (Inr result, posted) \<Rightarrow> (result, posted)
      | (Inl e, posted) \<Rightarrow> (unexpected_error_text, posted))"

text \<open>\<open>langgraph_workflow.py\<close>: three \<open>except\<close> clauses close the body.\<close>

definition create_support_ticket ::
  "library \<Rightarrow> config \<Rightarrow> gateway \<Rightarrow> pystr \<Rightarrow> pystr \<Rightarrow> pystr \<Rightarrow> pystr
     \<Rightarrow> pystr \<times> ticket_payload list" where
  "create_support_ticket lib cfg post subject description priority email =
     (case ticket_tool_body lib config_issue_text_lg auth_failed_text_lg cfg post
             subject description priority email of
        (Inr result, posted) \<Rightarrow> (result, posted)
      | (Inl Timeout, posted) \<Rightarrow> (timeout_text, posted)
      | (Inl ConnectionError, posted) \<Rightarrow> (connection_text, posted)
      | (Inl OtherError, posted) \<Rightarrow> (unexpected_error_text_lg, posted))"

text \<open>\<open>approval_workflow.py\<close>: the preview tool; it posts nothing.\<close>

definition priority_names_str :: "(pystr \<times> pystr) list" where
  "priority_names_str =
     [(lit ''1'', lit ''Low''), (lit ''2'', lit ''Medium''), (lit ''3'', lit ''High''),
      (lit ''4'', lit ''Urgent'')]"

definition generate_ticket_details :: "pystr \<Rightarrow> pystr \<Rightarrow> pystr \<Rightarrow> pystr \<Rightarrow> pystr" where
  "generate_ticket_details subject description priority email =
     (let priority_name = dict_get priority_names_str priority (lit ''Medium'')
      in lit ''I can help you create a support ticket for this issue. Here''
         @ apostrophe @ lit ''s what I'' @ apostrophe @ lit ''ll include:'' @ newline @ newline
         @ lit ''**Subject:** '' @ subject @ newline
         @ lit ''**Description:** '' @ description @ newline
         @ lit ''**Priority:** '' @ priority_name @ newline
         @ lit ''**Email:** '' @ email @ newline @ newline
         @ lit ''Would you like me to proceed with creating this ticket?'')"

text \<open>
  A function under \<open>@tool\<close> is called through \<open>invoke\<close> with a dictionary of
  arguments, which is first checked against the schema read off the signature: the four
  arguments must be there and must be strings. A dictionary that fails the check makes
  \<open>invoke\<close> raise a validation error to its caller, and the function does not run.
\<close>

datatype invoke_error = ValidationError

type_synonym tool = "pystr \<Rightarrow> pystr \<Rightarrow> pystr \<Rightarrow> pystr \<Rightarrow> pystr \<times> ticket_payload list"

definition validate_args :: "pydict \<Rightarrow> (pystr \<times> pystr \<times> pystr \<times> pystr) option" where
  "validate_args args =
     (case (map_of args (lit ''subject''), map_of args (lit ''description''),
            map_of args (lit ''priority''), map_of args (lit ''email'')) of
        (Some (PStr subject), Some (PStr description), Some (PStr priority), Some (PStr email))
          \<Rightarrow> Some (subject, description, priority, email)
      | _ \<Rightarrow> None)"

definition invoke :: "tool \<Rightarrow> pydict \<Rightarrow> invoke_error + pystr \<times> ticket_payload list" where
  "invoke t args =
     (case validate_args args of
        None \<Rightarrow> Inl ValidationError
      | Some (subject, description, priority, email) \<Rightarrow>
          Inr (t subject description priority email))"

section \<open>Messages, the language model and the tool node\<close>

text \<open>
  A tool call is the name of a tool and the dictionary of arguments the model wrote.
  The language model is a function of the system prompt a node puts in front of the
  history, the names of the tools bound to it (\<open>bind_tools\<close>) and the history; it
  raises, or it returns the content and the tool calls of an \<open>AIMessage\<close>.
\<close>

record tool_call =
  tc_name :: pystr
  tc_args :: pydict

datatype lc_message =
  HumanMessage pystr
| AIMessage pystr "tool_call list"
| ToolMessage pystr

datatype exn = IndexError | KeyError pystr | Exception pystr

text \<open>\<open>str(error)\<close>\<close>

fun exn_str :: "exn \<Rightarrow> pystr" where
  "exn_str IndexError = lit ''list index out of range''"
| "exn_str (KeyError k) = apostrophe @ k @ apostrophe"
| "exn_str (Exception m) = m"

datatype prompt = ChatPrompt | TicketPrompt | ApprovalPrompt | ChatbotPrompt | NoPrompt

type_synonym llm = "prompt \<Rightarrow> pystr list \<Rightarrow> lc_message list \<Rightarrow> exn + pystr \<times> tool_call list"

fun msg_content :: "lc_message \<Rightarrow> pystr" where
  "msg_content (HumanMessage c) = c"
| "msg_content (AIMessage c tcs) = c"
| "msg_content (ToolMessage c) = c"

fun tool_calls :: "lc_message \<Rightarrow> tool_call list" where
  "tool_calls (AIMessage c tcs) = tcs"
| "tool_calls m = []"

fun is_AIMessage :: "lc_message \<Rightarrow> bool" where
  "is_AIMessage (AIMessage c tcs) = True"
| "is_AIMessage m = False"

fun is_ToolMessage :: "lc_message \<Rightarrow> bool" where
  "is_ToolMessage (ToolMessage c) = True"
| "is_ToolMessage m = False"

text \<open>\<open>messages[-1]\<close>, with the \<open>IndexError\<close> of an empty list.\<close>

definition last_message :: "lc_message list \<Rightarrow> exn + lc_message" where
  "last_message ms = (if ms = [] then Inl IndexError else Inr (last ms))"

text \<open>
  The prebuilt \<open>ToolNode\<close>: every tool call of the last message is run, in order,
  through \<open>invoke\<close> of the tool of that name, and the text it returns becomes a
  \<open>ToolMessage\<close>. A name the node does not hold, and arguments the schema of the tool
  refuses, are answered by the error observation of the library; the tool does not run.
\<close>

fun run_tool_calls ::
  "library \<Rightarrow> (pystr \<times> tool) list \<Rightarrow> tool_call list
     \<Rightarrow> lc_message list \<times> ticket_payload list" where
  "run_tool_calls lib tools [] = ([], [])"
| "run_tool_calls lib tools (tc # tcs) =
     (let (observation, posted) =
            (case map_of tools (tc_name tc) of
               None \<Rightarrow> (tool_error lib (tc_name tc) (tc_args tc), [])
             | Some t \<Rightarrow>
                 (case invoke t (tc_args tc) of
                    Inl e \<Rightarrow> (tool_error lib (tc_name tc) (tc_args tc), [])
                  | Inr answer \<Rightarrow> answer));
          (observations, posted') = run_tool_calls lib tools tcs
      in (ToolMessage observation # observations, posted @ posted'))"

definition tool_node ::
  "library \<Rightarrow> (pystr \<times> tool) list \<Rightarrow> lc_message list
     \<Rightarrow> lc_message list \<times> ticket_payload list" where
  "tool_node lib tools ms =
     (if ms = [] then ([], []) else run_tool_calls lib tools (tool_calls (last ms)))"

definition create_freshdesk_ticket_tool :: "library \<Rightarrow> config \<Rightarrow> gateway \<Rightarrow> pystr \<times> tool" where
  "create_freshdesk_ticket_tool lib cfg post =
     (lit ''create_freshdesk_ticket'', create_freshdesk_ticket lib cfg post)"

definition create_support_ticket_tool :: "library \<Rightarrow> config \<Rightarrow> gateway \<Rightarrow> pystr \<times> tool" where
  "create_support_ticket_tool lib cfg post =
     (lit ''create_support_ticket'', create_support_ticket lib cfg post)"

definition generate_ticket_details_tool :: "pystr \<times> tool" where
  "generate_ticket_details_tool =
     (lit ''generate_ticket_details'',
      \<lambda>subject description priority email.
        (generate_ticket_details subject description priority email, []))"

section \<open>\<open>agents.py\<close>: the chat agent, the ticket agent and their routing\<close>

record agent_state =
  messages :: "lc_message list"
  user_id :: pystr
  conversation_id :: pystr
  user_email :: pystr
  current_agent :: pystr
  ticket_data :: "pydict option"
  needs_approval :: bool

text \<open>The tools bound to the model of each agent: none for the chat agent.\<close>

definition chat_agent_tools :: "pystr list" where
  "chat_agent_tools = []"

definition ticket_agent_tools :: "library \<Rightarrow> config \<Rightarrow> gateway \<Rightarrow> (pystr \<times> tool) list" where
  "ticket_agent_tools lib cfg post = [create_freshdesk_ticket_tool lib cfg post]"

definition chat_node :: "llm \<Rightarrow> agent_state \<Rightarrow> exn + agent_state" where
  "chat_node model state =
     (case model ChatPrompt chat_agent_tools (messages state) of
        Inl e \<Rightarrow> Inl e
      | Inr (c, tcs) \<Rightarrow>
          Inr (state\<lparr>messages := messages state @ [AIMessage c tcs],
                     current_agent := lit ''chat''\<rparr>))"

definition ticket_analysis_node ::
  "library \<Rightarrow> config \<Rightarrow> gateway \<Rightarrow> llm \<Rightarrow> agent_state \<Rightarrow> exn + agent_state" where
  "ticket_analysis_node lib cfg post model state =
     (case model TicketPrompt (map fst (ticket_agent_tools lib cfg post)) (messages state) of
        Inl e \<Rightarrow> Inl e
      | Inr (c, tcs) \<Rightarrow>
          Inr (state\<lparr>messages := messages state @ [AIMessage c tcs],
                     current_agent := lit ''ticket''\<rparr>))"

definition should_use_tools :: "agent_state \<Rightarrow> exn + string" where
  "should_use_tools state =
     (case last_message (messages state) of
        Inl e \<Rightarrow> Inl e
      | Inr last_msg \<Rightarrow> Inr (if tool_calls last_msg \<noteq> [] then ''tools'' else ''END''))"

text \<open>
  The graph of the ticket agent: \<open>analyze\<close>, then \<open>tools\<close> when the model asked for
  any, then the end. There is no edge back from \<open>tools\<close> to \<open>analyze\<close>.
\<close>

definition ticket_agent ::
  "library \<Rightarrow> config \<Rightarrow> gateway \<Rightarrow> llm \<Rightarrow> agent_state
     \<Rightarrow> (exn + agent_state) \<times> ticket_payload list" where
  "ticket_agent lib cfg post model state =
     (case ticket_analysis_node lib cfg post model state of
        Inl e \<Rightarrow> (Inl e, [])
      | Inr analysed \<Rightarrow>
          (case should_use_tools analysed of
             Inl e \<Rightarrow> (Inl e, [])
           | Inr branch \<Rightarrow>
               if branch = ''tools'' then
                 (let (observations, posted) =
                        tool_node lib (ticket_agent_tools lib cfg post) (messages analysed)
                  in (Inr (analysed\<lparr>messages := messages analysed @ observations\<rparr>), posted))
               else (Inr analysed, [])))"

definition ticket_keywords :: "pystr list" where
  "ticket_keywords =
     [lit ''create ticket'', lit ''create a ticket'', lit ''open ticket'',
      lit ''submit ticket'', lit ''escalate'', lit ''human help'', lit ''support team'',
      lit ''manager'']"

definition supervisor_routing :: "library \<Rightarrow> agent_state \<Rightarrow> string" where
  "supervisor_routing lib state =
     (let user_input = (if messages state = [] then []
                        else py_lower lib (msg_content (last (messages state))))
      in if any_keyword_in ticket_keywords user_input then ''ticket'' else ''chat'')"

definition multi_agent_workflow ::
  "library \<Rightarrow> config \<Rightarrow> gateway \<Rightarrow> llm \<Rightarrow> agent_state
     \<Rightarrow> (exn + agent_state) \<times> ticket_payload list" where
  "multi_agent_workflow lib cfg post model state =
     (if supervisor_routing lib state = ''ticket'' then ticket_agent lib cfg post model state
      else (chat_node model state, []))"

text \<open>
  The stored history is a list of role and content pairs; any role other than
  \<open>user\<close> and \<open>assistant\<close> is skipped.
\<close>

fun convert_history :: "(pystr \<times> pystr) list \<Rightarrow> lc_message list" where
  "convert_history [] = []"
| "convert_history ((role, c) # rest) =
     (if role = lit ''user'' then HumanMessage c # convert_history rest
      else if role = lit ''assistant'' then AIMessage c [] # convert_history rest
      else convert_history rest)"

text \<open>
  The dictionary a workflow returns. A key a workflow does not set reads as
  \<open>None\<close> or \<open>False\<close>, which is what \<open>.get\<close> gives the caller.
\<close>

record workflow_result =
  wr_content :: pystr
  wr_needsApproval :: bool
  wr_ticketDetails :: "pydict option"
  wr_toolsUsed :: "pystr list"
  wr_issueType :: pystr
  wr_ticketCreated :: bool
  wr_ticketId :: "pystr option"

definition extract_ticket_id :: "library \<Rightarrow> lc_message list \<Rightarrow> pystr option" where
  "extract_ticket_id lib tool_messages =
     (case List.find (\<lambda>msg. py_in (lit ''Ticket ID:'') (msg_content msg)) tool_messages of
        None \<Rightarrow> None
      | Some msg \<Rightarrow> re_search_ticket_id lib (msg_content msg))"

text \<open>
  The check for a created ticket at the end of \<open>run_multi_agent_workflow\<close>: the flag
  and the identifier it reports from the tool messages of the run.
\<close>

definition ticket_report :: "library \<Rightarrow> lc_message list \<Rightarrow> bool \<times> pystr option" where
  "ticket_report lib tool_messages =
     (let ticket_created = list_ex (\<lambda>msg. py_in check_mark (msg_content msg)) tool_messages
      in (ticket_created,
          if ticket_created then extract_ticket_id lib tool_messages else None))"

definition run_multi_agent_workflow ::
  "library \<Rightarrow> config \<Rightarrow> gateway \<Rightarrow> llm \<Rightarrow> pystr \<Rightarrow> (pystr \<times> pystr) list
     \<Rightarrow> pystr \<Rightarrow> pystr \<Rightarrow> pystr \<Rightarrow> (exn + workflow_result) \<times> ticket_payload list" where
  "run_multi_agent_workflow lib cfg post model message conversation_history uid cid email =
     (if OPENAI_API_KEY cfg = [] \<or> OPENAI_API_KEY cfg = lit ''your-openai-api-key-here''
      then (Inl (Exception (lit ''OpenAI API key not available'')), [])
      else
        (let msgs = convert_history conversation_history @ [HumanMessage message] in
         case multi_agent_workflow lib cfg post model
                \<lparr>messages = msgs, user_id = uid, conversation_id = cid, user_email = email,
                 current_agent = [], ticket_data = None, needs_approval = False\<rparr> of
           (Inl e, posted) \<Rightarrow> (Inl e, posted)
         | (Inr result, posted) \<Rightarrow>
             (let final_messages = filter is_AIMessage (messages result) in
              if final_messages = []
              then (Inl (Exception (lit ''No response generated from agents'')), posted)
              else
                (let final_message = last final_messages;
                     tool_messages = filter is_ToolMessage (messages result);
                     (ticket_created, ticket_id) = ticket_report lib tool_messages
                 in (Inr \<lparr>wr_content = msg_content final_message,
                          wr_needsApproval = False,
                          wr_ticketDetails = None,
                          wr_toolsUsed = (if ticket_created
                                          then [lit ''create_freshdesk_ticket''] else []),
                          wr_issueType = current_agent result,
                          wr_ticketCreated = ticket_created,
                          wr_ticketId = ticket_id\<rparr>, posted)))))"

text \<open>
  The dictionary of a direct filing. The exception path returns only \<open>success\<close> and
  \<open>content\<close>, so the two identifiers read as \<open>None\<close> there.
\<close>

record ticket_result =
  tr_success :: bool
  tr_content :: pystr
  tr_ticketId :: "pystr option"
  tr_ticketNumber :: "pystr option"

definition direct_error_text :: pystr where
  "direct_error_text =
     cross_mark @ lit '' Error creating ticket. Please contact support directly.''"

text \<open>
  \<open>create_ticket_directly\<close>: a draft without one of the three keys raises
  \<open>KeyError\<close> and a draft the schema refuses makes \<open>invoke\<close> raise; the
  \<open>except\<close> clause answers both with the fixed dictionary.
\<close>

definition create_ticket_directly ::
  "library \<Rightarrow> config \<Rightarrow> gateway \<Rightarrow> pydict \<Rightarrow> pystr \<Rightarrow> ticket_result \<times> ticket_payload list" where
  "create_ticket_directly lib cfg post ticket_dict email =
     (let failed = (\<lparr>tr_success = False, tr_content = direct_error_text,
                     tr_ticketId = None, tr_ticketNumber = None\<rparr>, [])
      in case (map_of ticket_dict (lit ''subject''), map_of ticket_dict (lit ''description''),
               map_of ticket_dict (lit ''priority'')) of
           (Some subject, Some description, Some priority) \<Rightarrow>
             (case invoke (create_freshdesk_ticket lib cfg post)
                     [(lit ''subject'', subject), (lit ''description'', description),
                      (lit ''priority'', priority), (lit ''email'', PStr email)] of
                Inl e \<Rightarrow> failed
              | Inr (result, posted) \<Rightarrow>
                  (let ticket_id = re_search_ticket_id lib result
                   in (\<lparr>tr_success = py_in check_mark result, tr_content = result,
                        tr_ticketId = ticket_id, tr_ticketNumber = ticket_id\<rparr>, posted)))
         | _ \<Rightarrow> failed)"

section \<open>\<open>approval_workflow.py\<close>: drafting a ticket for approval\<close>

record approval_state =
  ap_messages :: "lc_message list"
  ap_user_id :: pystr
  ap_conversation_id :: pystr
  ap_user_email :: pystr
  ap_ticket_details :: "pydict option"
  ap_approval_needed :: bool
  ap_user_approved :: bool

definition approval_tools :: "(pystr \<times> tool) list" where
  "approval_tools = [generate_ticket_details_tool]"

definition analyze_for_ticket :: "llm \<Rightarrow> approval_state \<Rightarrow> exn + approval_state" where
  "analyze_for_ticket model state =
     (case model ApprovalPrompt (map fst approval_tools) (ap_messages state) of
        Inl e \<Rightarrow> Inl e
      | Inr (c, tcs) \<Rightarrow>
          Inr (state\<lparr>ap_messages := ap_messages state @ [AIMessage c tcs],
                     ap_approval_needed := True\<rparr>))"

definition should_generate_details :: "approval_state \<Rightarrow> exn + string" where
  "should_generate_details state =
     (case last_message (ap_messages state) of
        Inl e \<Rightarrow> Inl e
      | Inr last_msg \<Rightarrow>
          Inr (if tool_calls last_msg \<noteq> [] then ''generate_details'' else ''END''))"

text \<open>
  \<open>extract_ticket_data\<close> walks the messages from the newest to the oldest and looks at
  the first tool call of each message that has any; the arguments are taken as the model
  wrote them.
\<close>

fun find_ticket_details :: "lc_message list \<Rightarrow> pydict option" where
  "find_ticket_details [] = None"
| "find_ticket_details (message # older) =
     (case tool_calls message of
        [] \<Rightarrow> find_ticket_details older
      | tc # tcs \<Rightarrow>
          if tc_name tc = lit ''generate_ticket_details'' then Some (tc_args tc)
          else find_ticket_details older)"

definition extract_ticket_data :: "approval_state \<Rightarrow> approval_state" where
  "extract_ticket_data state =
     (case find_ticket_details (rev (ap_messages state)) of
        Some ticket_details \<Rightarrow>
          state\<lparr>ap_ticket_details := Some ticket_details, ap_approval_needed := True\<rparr>
      | None \<Rightarrow> state\<lparr>ap_approval_needed := False\<rparr>)"

definition approval_workflow ::
  "library \<Rightarrow> llm \<Rightarrow> approval_state \<Rightarrow> (exn + approval_state) \<times> ticket_payload list" where
  "approval_workflow lib model state =
     (case analyze_for_ticket model state of
        Inl e \<Rightarrow> (Inl e, [])
      | Inr analysed \<Rightarrow>
          (case should_generate_details analysed of
             Inl e \<Rightarrow> (Inl e, [])
           | Inr branch \<Rightarrow>
               if branch = ''generate_details'' then
                 (let (observations, posted) =
                        tool_node lib approval_tools (ap_messages analysed)
                  in (Inr (extract_ticket_data
                             (analysed\<lparr>ap_messages := ap_messages analysed @ observations\<rparr>)),
                      posted))
               else (Inr analysed, [])))"

definition run_approval_workflow ::
  "library \<Rightarrow> llm \<Rightarrow> pystr \<Rightarrow> (pystr \<times> pystr) list \<Rightarrow> pystr \<Rightarrow> pystr \<Rightarrow> pystr
     \<Rightarrow> (exn + workflow_result) \<times> ticket_payload list" where
  "run_approval_workflow lib model message conversation_history uid cid email =
     (let msgs = convert_history conversation_history @ [HumanMessage message] in
      case approval_workflow lib model
             \<lparr>ap_messages = msgs, ap_user_id = uid, ap_conversation_id = cid,
              ap_user_email = email, ap_ticket_details = None,
              ap_approval_needed = False, ap_user_approved = False\<rparr> of
        (Inl e, posted) \<Rightarrow> (Inl e, posted)
      | (Inr result, posted) \<Rightarrow>
          (let final_messages = filter is_AIMessage (ap_messages result) in
           if final_messages = []
           then (Inl (Exception (lit ''No response generated'')), posted)
           else
             (Inr \<lparr>wr_content = msg_content (last final_messages),
                   wr_needsApproval = ap_approval_needed result,
                   wr_ticketDetails = ap_ticket_details result,
                   wr_toolsUsed = (if ap_approval_needed result
                                   then [lit ''generate_ticket_details''] else []),
                   wr_issueType = lit ''ticket_approval'',
                   wr_ticketCreated = False,
                   wr_ticketId = None\<rparr>, posted)))"

section \<open>\<open>langgraph_workflow.py\<close>: the chatbot and its tool loop\<close>

definition chatbot_tools :: "library \<Rightarrow> config \<Rightarrow> gateway \<Rightarrow> (pystr \<times> tool) list" where
  "chatbot_tools lib cfg post = [create_support_ticket_tool lib cfg post]"

definition chatbot ::
  "library \<Rightarrow> config \<Rightarrow> gateway \<Rightarrow> llm \<Rightarrow> lc_message list \<Rightarrow> exn + lc_message list" where
  "chatbot lib cfg post model ms =
     (let system_prompt =
            (if ms = [] \<or> \<not> list_ex (\<lambda>msg. is_AIMessage msg
                                        \<and> py_in (lit ''Fixie'') (msg_content msg)) ms
             then ChatbotPrompt else NoPrompt)
      in case model system_prompt (map fst (chatbot_tools lib cfg post)) ms of
           Inl e \<Rightarrow> Inl e
         | Inr (c, tcs) \<Rightarrow> Inr (ms @ [AIMessage c tcs]))"

definition should_continue :: "lc_message list \<Rightarrow> exn + string" where
  "should_continue ms =
     (case last_message ms of
        Inl e \<Rightarrow> Inl e
      | Inr last_msg \<Rightarrow> Inr (if tool_calls last_msg \<noteq> [] then ''tools'' else ''END''))"

text \<open>
  The graph \<open>chatbot\<close>, \<open>tools\<close>, back to \<open>chatbot\<close>. The source sets no bound on
  the rounds and passes no configuration to \<open>invoke\<close>, so the only bound is the
  recursion limit of the graph library (25 steps unless configured): each run of a node
  is a step, and a run that still has a node to run when the steps are used up ends with
  \<open>GraphRecursionError\<close>. The limit is the first argument; what was posted before
  the error stays posted.
\<close>

datatype graph_error = GraphRecursionError | NodeRaised exn

datatype graph_node = ChatbotNode | ToolsNode

fun langgraph_workflow ::
  "nat \<Rightarrow> graph_node \<Rightarrow> library \<Rightarrow> config \<Rightarrow> gateway \<Rightarrow> llm \<Rightarrow> lc_message list
     \<Rightarrow> (graph_error + lc_message list) \<times> ticket_payload list" where
  "langgraph_workflow 0 node lib cfg post model ms = (Inl GraphRecursionError, [])"
| "langgraph_workflow (Suc steps) ChatbotNode lib cfg post model ms =
     (case chatbot lib cfg post model ms of
        Inl e \<Rightarrow> (Inl (NodeRaised e), [])
      | Inr answered \<Rightarrow>
          (case should_continue answered of
             Inl e \<Rightarrow> (Inl (NodeRaised e), [])
           | Inr branch \<Rightarrow>
               if branch = ''tools''
               then langgraph_workflow steps ToolsNode lib cfg post model answered
               else (Inr answered, [])))"
| "langgraph_workflow (Suc steps) ToolsNode lib cfg post model ms =
     (let (observations, posted) = tool_node lib (chatbot_tools lib cfg post) ms;
          (result, posted') =
            langgraph_workflow steps ChatbotNode lib cfg post model (ms @ observations)
      in (result, posted @ posted'))"

definition default_recursion_limit :: nat where
  "default_recursion_limit = 25"





section \<open>\<open>main.py\<close>: the chat endpoint\<close>

text \<open>
  The two in-memory dictionaries are maps. Message identifiers and time stamps are left
  out of the stored messages and of the response: they come from \<open>uuid4\<close> and the
  clock, and nothing reads them. The response is what the endpoint function returns;
  what the web framework does with it afterwards is not modelled.
\<close>

record stored_message =
  sm_role :: pystr
  sm_content :: pystr
  sm_ticketId :: "pystr option"
  sm_ticketNumber :: "pystr option"

record conversation_meta =
  cm_lastMessage :: pystr
  cm_userId :: pystr

record server_state =
  messages_db :: "pystr \<rightharpoonup> stored_message list"
  conversations_db :: "pystr \<rightharpoonup> conversation_meta"

record chat_request =
  rq_conversationId :: pystr
  rq_message :: pystr
  rq_userId :: "pystr option"
  rq_userEmail :: "pystr option"
  rq_action :: "pystr option"
  rq_ticketData :: "pydict option"

record chat_response =
  rs_success :: bool
  rs_content :: pystr
  rs_conversationId :: pystr
  rs_needsApproval :: bool
  rs_ticketSummary :: "pyval option"
  rs_interactiveButtons :: "pydict option"
  rs_ticketCreated :: bool
  rs_ticketId :: "pystr option"
  rs_ticketNumber :: "pystr option"

datatype http_exception = HTTPException nat pystr

text \<open>\<open>x or default\<close> on an optional string.\<close>

definition or_default :: "pystr option \<Rightarrow> pystr \<Rightarrow> pystr" where
  "or_default x dflt = (case x of None \<Rightarrow> dflt | Some v \<Rightarrow> if v = [] then dflt else v)"

definition append_messages :: "server_state \<Rightarrow> pystr \<Rightarrow> stored_message list \<Rightarrow> server_state" where
  "append_messages db cid new =
     db\<lparr>messages_db := (messages_db db)(cid \<mapsto>
          (case messages_db db cid of None \<Rightarrow> [] | Some old \<Rightarrow> old) @ new)\<rparr>"

definition new_response :: "pystr \<Rightarrow> pystr \<Rightarrow> chat_response" where
  "new_response c cid =
     \<lparr>rs_success = True, rs_content = c, rs_conversationId = cid, rs_needsApproval = False,
      rs_ticketSummary = None, rs_interactiveButtons = None, rs_ticketCreated = False,
      rs_ticketId = None, rs_ticketNumber = None\<rparr>"

definition decline_message :: pystr where
  "decline_message =
     lit ''I understand you don'' @ apostrophe
     @ lit ''t want to create a ticket right now. Is there anything else I can help you with?''"

definition main_ticket_keywords :: "pystr list" where
  "main_ticket_keywords =
     [lit ''create ticket'', lit ''create a ticket'', lit ''yes'', lit ''proceed'',
      lit ''confirm'']"

text \<open>The \<open>except\<close> clause of the endpoint.\<close>

definition error_response :: "library \<Rightarrow> exn \<Rightarrow> http_exception" where
  "error_response lib error =
     (if py_in (lit ''auth'') (py_lower lib (exn_str error))
      then HTTPException 401 (lit ''Authentication failed. Please refresh and try again.'')
      else HTTPException 500 (lit ''Sorry, I encountered an error: '' @ exn_str error))"

text \<open>The call of one of the two workflows in the normal chat flow.\<close>

definition run_workflow ::
  "library \<Rightarrow> config \<Rightarrow> gateway \<Rightarrow> llm \<Rightarrow> server_state \<Rightarrow> chat_request
     \<Rightarrow> (exn + workflow_result) \<times> ticket_payload list" where
  "run_workflow lib cfg post model db request =
     (let uid = or_default (rq_userId request) (lit ''test-user'');
          email = or_default (rq_userEmail request) (lit ''user@example.com'');
          conversation_messages =
            (case messages_db db (rq_conversationId request) of None \<Rightarrow> [] | Some ms \<Rightarrow> ms);
          chat_msgs = map (\<lambda>msg. (sm_role msg, sm_content msg)) conversation_messages;
          message_lower = py_lower lib (rq_message request)
      in if any_keyword_in main_ticket_keywords message_lower
         then run_approval_workflow lib model (rq_message request) chat_msgs
                uid (rq_conversationId request) email
         else run_multi_agent_workflow lib cfg post model (rq_message request) chat_msgs
                uid (rq_conversationId request) email)"

text \<open>
  \<open>request.action == 'approve_ticket' and request.ticketData\<close>: the draft to file,
  when the action is the approval and the draft is neither missing nor empty.
\<close>

definition approved_ticket_data :: "chat_request \<Rightarrow> pydict option" where
  "approved_ticket_data request =
     (if rq_action request = Some (lit ''approve_ticket'')
      then (case rq_ticketData request of
              None \<Rightarrow> None
            | Some ticketData \<Rightarrow> if ticketData = [] then None else Some ticketData)
      else None)"

text \<open>
  The endpoint. In the normal chat flow both dictionaries are written before the
  approval buttons are made, so the \<open>KeyError\<close> of a draft without \<open>subject\<close>
  reaches the \<open>except\<close> clause after the messages of the turn are stored.
\<close>

definition chat_endpoint ::
  "library \<Rightarrow> config \<Rightarrow> gateway \<Rightarrow> llm \<Rightarrow> server_state \<Rightarrow> chat_request
     \<Rightarrow> (http_exception + chat_response) \<times> server_state \<times> ticket_payload list" where
  "chat_endpoint lib cfg post model db request =
     (let uid = or_default (rq_userId request) (lit ''test-user'');
          email = or_default (rq_userEmail request) (lit ''user@example.com'');
          cid = rq_conversationId request
      in
      case approved_ticket_data request of
        Some ticketData \<Rightarrow>
        (let (ticket_result, posted) = create_ticket_directly lib cfg post ticketData email;
             message_data = \<lparr>sm_role = lit ''assistant'', sm_content = tr_content ticket_result,
                             sm_ticketId = tr_ticketId ticket_result,
                             sm_ticketNumber = tr_ticketNumber ticket_result\<rparr>
         in (Inr ((new_response (tr_content ticket_result) cid)
                    \<lparr>rs_ticketCreated := tr_success ticket_result,
                     rs_ticketId := tr_ticketId ticket_result,
                     rs_ticketNumber := tr_ticketNumber ticket_result\<rparr>),
             append_messages db cid [message_data], posted))
      | None \<Rightarrow>
      if rq_action request = Some (lit ''decline_ticket'')
      then
        (let message_data = \<lparr>sm_role = lit ''assistant'', sm_content = decline_message,
                             sm_ticketId = None, sm_ticketNumber = None\<rparr>
         in (Inr (new_response decline_message cid), append_messages db cid [message_data], []))
      else
        (case run_workflow lib cfg post model db request of
           (Inl error, posted) \<Rightarrow> (Inl (error_response lib error), db, posted)
         | (Inr workflow_result, posted) \<Rightarrow>
             (let ai_response = wr_content workflow_result;
                  user_message_data = \<lparr>sm_role = lit ''user'', sm_content = rq_message request,
                                       sm_ticketId = None, sm_ticketNumber = None\<rparr>;
                  ai_message_data = \<lparr>sm_role = lit ''assistant'', sm_content = ai_response,
                                     sm_ticketId = None, sm_ticketNumber = None\<rparr>;
                  db' = (append_messages db cid [user_message_data, ai_message_data])
                          \<lparr>conversations_db := (conversations_db db)(cid \<mapsto>
                              \<lparr>cm_lastMessage = rq_message request, cm_userId = uid\<rparr>)\<rparr>;
                  response = new_response ai_response cid;
                  ticket_details =
                    (if wr_needsApproval workflow_result
                     then (case wr_ticketDetails workflow_result of
                             None \<Rightarrow> None
                           | Some details \<Rightarrow> if details = [] then None else Some details)
                     else None)
              in case ticket_details of
                   None \<Rightarrow> (Inr response, db', posted)
                 | Some details \<Rightarrow>
                     (case map_of details (lit ''subject'') of
                        None \<Rightarrow>
                          (Inl (error_response lib (KeyError (lit ''subject''))), db', posted)
                      | Some subject \<Rightarrow>
                          (Inr (response\<lparr>rs_needsApproval := True,
                                         rs_ticketSummary := Some subject,
                                         rs_interactiveButtons := Some details\<rparr>),
                           db', posted)))))"

section \<open>Notions used in the statements\<close>

text \<open>A keyword occurs in a text when the text has it as a stretch.\<close>

definition occurs_in :: "pystr \<Rightarrow> pystr \<Rightarrow> bool" where
  "occurs_in keyword s = (\<exists>before after. s = before @ keyword @ after)"

text \<open>The value of a key of a dictionary when it is there and is a string.\<close>

definition str_field :: "pydict \<Rightarrow> pystr \<Rightarrow> pystr option" where
  "str_field d k = (case map_of d k of Some (PStr v) \<Rightarrow> Some v | _ \<Rightarrow> None)"

text \<open>The settings under which a ticket tool gets past its first check.\<close>

definition freshdesk_configured :: "config \<Rightarrow> bool" where
  "freshdesk_configured cfg =
     (FRESHDESK_DOMAIN cfg \<noteq> [] \<and> FRESHDESK_API_KEY cfg \<noteq> []
      \<and> FRESHDESK_API_KEY cfg \<noteq> lit ''your-freshdesk-api-key-here'')"

text \<open>
  The texts the two ticket tools can return for a subject: the fixed texts, the texts
  that carry what the endpoint sent back, and the confirmation.
\<close>

definition ticket_tool_texts :: "pystr \<Rightarrow> pystr \<Rightarrow> pystr \<Rightarrow> pystr set" where
  "ticket_tool_texts config_text auth_text subject =
     {config_text, auth_text, email_failed_text}
     \<union> {api_error_text m | m. True}
     \<union> {status_error_text status_code error_text | status_code error_text. True}
     \<union> {success_text ticket_id subject priority_name ticket_url |
          ticket_id priority_name ticket_url. True}"

definition freshdesk_ticket_texts :: "pystr \<Rightarrow> pystr set" where
  "freshdesk_ticket_texts subject =
     insert unexpected_error_text (ticket_tool_texts config_issue_text auth_failed_text subject)"

definition support_ticket_texts :: "pystr \<Rightarrow> pystr set" where
  "support_ticket_texts subject =
     {unexpected_error_text_lg, timeout_text, connection_text}
     \<union> ticket_tool_texts config_issue_text_lg auth_failed_text_lg subject"


text \<open>A model that answers every call with at least one tool call.\<close>

definition always_requests :: "llm \<Rightarrow> bool" where
  "always_requests model =
     (\<forall>p tools ms. \<exists>c tc tcs. model p tools ms = Inr (c, tc # tcs))"

section \<open>Example inputs\<close>

text \<open>
  The library of the examples gives what Python gives on the texts the examples hold:
  \<open>str.lower\<close> on ASCII text, \<open>int\<close> on a short plain run of ASCII digits and on
  texts with no digit at all, and no word character among the two markers.
\<close>

definition ascii_lower :: "pystr \<Rightarrow> pystr" where
  "ascii_lower s = map (\<lambda>c. if 65 \<le> c \<and> c \<le> 90 then c + 32 else c) s"

definition digits_int :: "pystr \<Rightarrow> int option" where
  "digits_int s =
     (if s \<noteq> [] \<and> list_all (\<lambda>c. 48 \<le> c \<and> c \<le> 57) s
      then Some (int (foldl (\<lambda>n c. 10 * n + (c - 48)) 0 s))
      else None)"

definition example_library :: library where
  "example_library =
     \<lparr>py_lower = ascii_lower, py_int = digits_int, py_word = (\<lambda>c. False),
      tool_error = (\<lambda>name args. lit ''Error: '' @ name)\<rparr>"

definition example_config :: config where
  "example_config =
     \<lparr>OPENAI_API_KEY = lit ''sk-test'', FRESHDESK_DOMAIN = lit ''acme.freshdesk.com'',
      FRESHDESK_API_KEY = lit ''key123''\<rparr>"

definition default_config :: config where
  "default_config =
     \<lparr>OPENAI_API_KEY = lit ''your-openai-api-key-here'',
      FRESHDESK_DOMAIN = lit ''yourcompany.freshdesk.com'',
      FRESHDESK_API_KEY = lit ''your-freshdesk-api-key-here''\<rparr>"

definition gateway_created :: gateway where
  "gateway_created ticket =
     Inr \<lparr>resp_ok = True, resp_status_code = 201, resp_text = lit ''{\"id\": 42}'',
          resp_json = Some (JObject [(lit ''id'', lit ''42'')])\<rparr>"

definition gateway_invalid_credentials :: gateway where
  "gateway_invalid_credentials ticket =
     Inr \<lparr>resp_ok = False, resp_status_code = 401,
          resp_text = lit ''{\"code\": \"invalid_credentials\", \"message\": \"You have to be logged in\"}'',
          resp_json = Some (JObject [(lit ''code'', lit ''invalid_credentials''),
                                     (lit ''message'', lit ''You have to be logged in'')])\<rparr>"

definition gateway_times_out :: gateway where
  "gateway_times_out ticket = Inl Timeout"



definition example_draft :: pydict where
  "example_draft =
     [(lit ''subject'', PStr (lit ''VPN down'')),
      (lit ''description'', PStr (lit ''VPN does not connect'')),
      (lit ''priority'', PStr (lit ''3'')), (lit ''email'', PStr (lit ''a@b.com''))]"

text \<open>The same draft with the priority written as a JSON number.\<close>

definition numeric_draft :: pydict where
  "numeric_draft =
     [(lit ''subject'', PStr (lit ''VPN down'')),
      (lit ''description'', PStr (lit ''VPN does not connect'')),
      (lit ''priority'', PInt 3), (lit ''email'', PStr (lit ''a@b.com''))]"

text \<open>
  A model that asks for the first tool bound to it, whatever the history, and one that
  answers with the names of the tools bound to it.
\<close>

definition model_requests :: "pystr \<Rightarrow> llm" where
  "model_requests reply p tools ms =
     Inr (reply, [\<lparr>tc_name = (case tools of [] \<Rightarrow> lit ''create_freshdesk_ticket''
                               | t # ts \<Rightarrow> t),
                    tc_args = example_draft\<rparr>])"

definition model_names_tools :: llm where
  "model_names_tools p tools ms = Inr (concat tools, [])"

definition model_raises :: llm where
  "model_raises p tools ms = Inl (Exception (lit ''Connection error.''))"

definition empty_db :: server_state where
  "empty_db = \<lparr>messages_db = Map.empty, conversations_db = Map.empty\<rparr>"

definition example_request :: "string \<Rightarrow> string option \<Rightarrow> pydict option \<Rightarrow> chat_request" where
  "example_request message action ticketData =
     \<lparr>rq_conversationId = lit ''c1'', rq_message = lit message,
      rq_userId = Some (lit ''u1''), rq_userEmail = Some (lit ''u@x.com''),
      rq_action = map_option lit action, rq_ticketData = ticketData\<rparr>"

section \<open>Literals\<close>

lemma lit_eq_iff [simp]: "lit a = lit b \<longleftrightarrow> a = b"
  unfolding lit_def by (simp add: inj_map_eq_map inj_def)

lemma lit_Nil [simp]: "lit [] = []" "lit s = [] \<longleftrightarrow> s = []" "[] = lit s \<longleftrightarrow> s = []"
  by (auto simp add: lit_def)


section \<open>The ticket tools\<close>

lemma validate_args_Some:
  "validate_args args = Some (subject, description, priority, email) \<longleftrightarrow>
     str_field args (lit ''subject'') = Some subject
     \<and> str_field args (lit ''description'') = Some description
     \<and> str_field args (lit ''priority'') = Some priority
     \<and> str_field args (lit ''email'') = Some email"
  by (auto simp add: validate_args_def str_field_def split: option.splits pyval.splits)

lemma validate_args_None:
  "validate_args args = None \<longleftrightarrow>
     str_field args (lit ''subject'') = None \<or> str_field args (lit ''description'') = None
     \<or> str_field args (lit ''priority'') = None \<or> str_field args (lit ''email'') = None"
  by (auto simp add: validate_args_def str_field_def split: option.splits pyval.splits)

lemma invoke_valid:
  "str_field args (lit ''subject'') = Some subject \<Longrightarrow>
   str_field args (lit ''description'') = Some description \<Longrightarrow>
   str_field args (lit ''priority'') = Some priority \<Longrightarrow>
   str_field args (lit ''email'') = Some email \<Longrightarrow>
     invoke t args = Inr (t subject description priority email)"
  using validate_args_Some [of args subject description priority email]
  by (simp add: invoke_def)

lemma invoke_invalid:
  "str_field args (lit ''subject'') = None \<or> str_field args (lit ''description'') = None
     \<or> str_field args (lit ''priority'') = None \<or> str_field args (lit ''email'') = None \<Longrightarrow>
     invoke t args = Inl ValidationError"
  using validate_args_None [of args] by (simp add: invoke_def)

lemma tool_body_posted:
  "snd (ticket_tool_body lib ct atx cfg post subject description priority email) =
     (if freshdesk_configured cfg \<and> list_all is_ascii (FRESHDESK_API_KEY cfg) then
        (case py_int lib priority of
           None \<Rightarrow> []
         | Some p \<Rightarrow> [\<lparr>p_description = description, p_subject = subject, p_email = email,
                       p_priority = p, p_status = 2\<rparr>])
      else [])"
  by (simp add: ticket_tool_body_def freshdesk_configured_def Let_def
        split: option.split sum.split)

lemma create_freshdesk_ticket_posted:
  "snd (create_freshdesk_ticket lib cfg post subject description priority email) =
     snd (ticket_tool_body lib config_issue_text auth_failed_text cfg post
            subject description priority email)"
  by (simp add: create_freshdesk_ticket_def split: prod.split sum.split)

lemma create_support_ticket_posted:
  "snd (create_support_ticket lib cfg post subject description priority email) =
     snd (ticket_tool_body lib config_issue_text_lg auth_failed_text_lg cfg post
            subject description priority email)"
  by (simp add: create_support_ticket_def split: prod.split sum.split raised.split)

lemma tool_body_not_configured:
  "\<not> freshdesk_configured cfg \<Longrightarrow>
     ticket_tool_body lib ct atx cfg post subject description priority email = (Inr ct, [])"
  by (auto simp add: ticket_tool_body_def freshdesk_configured_def Let_def)

lemma tool_body_bad_priority:
  "freshdesk_configured cfg \<Longrightarrow> py_int lib priority = None \<Longrightarrow>
     ticket_tool_body lib ct atx cfg post subject description priority email
       = (Inl OtherError, [])"
  by (auto simp add: ticket_tool_body_def freshdesk_configured_def Let_def)

lemma tool_body_bad_key:
  "freshdesk_configured cfg \<Longrightarrow> py_int lib priority = Some p \<Longrightarrow>
   \<not> list_all is_ascii (FRESHDESK_API_KEY cfg) \<Longrightarrow>
     ticket_tool_body lib ct atx cfg post subject description priority email
       = (Inl OtherError, [])"
  by (auto simp add: ticket_tool_body_def freshdesk_configured_def Let_def)

lemma ticket_tool_texts_intros:
  "ct \<in> ticket_tool_texts ct atx subject"
  "atx \<in> ticket_tool_texts ct atx subject"
  "email_failed_text \<in> ticket_tool_texts ct atx subject"
  "api_error_text m \<in> ticket_tool_texts ct atx subject"
  "status_error_text status_code error_text \<in> ticket_tool_texts ct atx subject"
  "success_text ticket_id subject priority_name ticket_url \<in> ticket_tool_texts ct atx subject"
  unfolding ticket_tool_texts_def by blast+

lemma render_response_texts:
  "render_response lib atx domain subject p response = Inr t \<Longrightarrow>
     t \<in> ticket_tool_texts ct atx subject"
  unfolding render_response_def Let_def
  by (auto split: if_splits option.splits json_body.splits intro: ticket_tool_texts_intros)

lemma tool_body_texts:
  "fst (ticket_tool_body lib ct atx cfg post subject description priority email) = Inr t \<Longrightarrow>
     t \<in> ticket_tool_texts ct atx subject"
  unfolding ticket_tool_body_def Let_def
  using render_response_texts [of lib atx "FRESHDESK_DOMAIN cfg" subject _ _ t ct]
  by (auto split: if_splits option.splits sum.splits intro: ticket_tool_texts_intros)

lemma create_freshdesk_ticket_texts:
  "fst (create_freshdesk_ticket lib cfg post subject description priority email)
     \<in> freshdesk_ticket_texts subject"
proof -
  obtain r posted where
    body: "ticket_tool_body lib config_issue_text auth_failed_text cfg post
             subject description priority email = (r, posted)"
    by (cases "ticket_tool_body lib config_issue_text auth_failed_text cfg post
                 subject description priority email") blast
  show ?thesis
  proof (cases r)
    case (Inl e)
    with body show ?thesis
      by (simp add: create_freshdesk_ticket_def freshdesk_ticket_texts_def)
  next
    case (Inr t)
    with body tool_body_texts [of lib config_issue_text auth_failed_text cfg post
                                 subject description priority email t]
    show ?thesis
      by (simp add: create_freshdesk_ticket_def freshdesk_ticket_texts_def)
  qed
qed

lemma create_support_ticket_texts:
  "fst (create_support_ticket lib cfg post subject description priority email)
     \<in> support_ticket_texts subject"
proof -
  obtain r posted where
    body: "ticket_tool_body lib config_issue_text_lg auth_failed_text_lg cfg post
             subject description priority email = (r, posted)"
    by (cases "ticket_tool_body lib config_issue_text_lg auth_failed_text_lg cfg post
                 subject description priority email") blast
  show ?thesis
  proof (cases r)
    case (Inl e)
    with body show ?thesis
      by (cases e) (simp_all add: create_support_ticket_def support_ticket_texts_def)
  next
    case (Inr t)
    with body tool_body_texts [of lib config_issue_text_lg auth_failed_text_lg cfg post
                                 subject description priority email t]
    show ?thesis
      by (simp add: create_support_ticket_def support_ticket_texts_def)
  qed
qed

lemma gateway_raises_texts:
  assumes "freshdesk_configured cfg" "list_all is_ascii (FRESHDESK_API_KEY cfg)"
      and "py_int lib priority = Some p"
      and "post \<lparr>p_description = description, p_subject = subject, p_email = email,
                  p_priority = p, p_status = 2\<rparr> = Inl e"
  shows "fst (create_freshdesk_ticket lib cfg post subject description priority email)
           = unexpected_error_text
         \<and> fst (create_support_ticket lib cfg post subject description priority email)
           = (case e of Timeout \<Rightarrow> timeout_text | ConnectionError \<Rightarrow> connection_text
              | OtherError \<Rightarrow> unexpected_error_text_lg)"
  using assms
  by (auto simp add: create_freshdesk_ticket_def create_support_ticket_def
        ticket_tool_body_def freshdesk_configured_def Let_def split: raised.split)

lemma invalid_credentials_texts:
  assumes "freshdesk_configured cfg" "list_all is_ascii (FRESHDESK_API_KEY cfg)"
      and "py_int lib priority = Some p"
      and "post \<lparr>p_description = description, p_subject = subject, p_email = email,
                  p_priority = p, p_status = 2\<rparr> = Inr response"
      and "\<not> resp_ok response" "resp_json response = Some (JObject error_json)"
      and "map_of error_json (lit ''code'') = Some (lit ''invalid_credentials'')"
  shows "fst (create_freshdesk_ticket lib cfg post subject description priority email)
           = auth_failed_text
         \<and> fst (create_support_ticket lib cfg post subject description priority email)
           = auth_failed_text_lg"
  using assms
  by (auto simp add: create_freshdesk_ticket_def create_support_ticket_def
        ticket_tool_body_def freshdesk_configured_def render_response_def Let_def)

lemma example_config_usable:
  "freshdesk_configured example_config"
  "list_all is_ascii (FRESHDESK_API_KEY example_config)"
  by (simp_all add: freshdesk_configured_def example_config_def)
     (simp add: lit_def is_ascii_def)

lemma default_config_unusable: "\<not> freshdesk_configured default_config"
  by (simp add: freshdesk_configured_def default_config_def)

lemma py_int_examples:
  "py_int example_library (lit ''3'') = Some 3"
  "py_int example_library (lit ''9'') = Some 9"
  "py_int example_library (lit ''high'') = None"
  by (simp_all add: example_library_def digits_int_def lit_def)

lemma example_draft_fields:
  "str_field example_draft (lit ''subject'') = Some (lit ''VPN down'')"
  "str_field example_draft (lit ''description'') = Some (lit ''VPN does not connect'')"
  "str_field example_draft (lit ''priority'') = Some (lit ''3'')"
  "str_field example_draft (lit ''email'') = Some (lit ''a@b.com'')"
  by (simp_all add: example_draft_def str_field_def)

lemma numeric_draft_fields:
  "str_field numeric_draft (lit ''priority'') = None"
  "map_of numeric_draft (lit ''subject'') = Some (PStr (lit ''VPN down''))"
  "map_of numeric_draft (lit ''description'') = Some (PStr (lit ''VPN does not connect''))"
  "map_of numeric_draft (lit ''priority'') = Some (PInt 3)"
  by (simp_all add: numeric_draft_def str_field_def)

text \<open>
  C5, as the code has it. Called through \<open>invoke\<close> with arguments that pass the
  schema (subject, description, priority and email, all strings), both ticket tools
  return a text and do not raise: whatever the settings, the arguments and the endpoint
  do, the result is one of the texts written for the user. Once the request is made, an
  endpoint that raises is answered by the fixed texts of the \<open>except\<close> clauses, and a
  response that reports \<open>invalid_credentials\<close> by the fixed authentication text, which
  holds nothing of the response. Arguments that fail the schema make \<open>invoke\<close> raise
  to its caller before the tool runs; the tool node answers that with an error
  observation and \<open>create_ticket_directly\<close> with its fixed dictionary.
\<close>

theorem ticket_tools_answer_with_text:
  "(str_field args (lit ''subject'') = Some subject
      \<and> str_field args (lit ''description'') = Some description
      \<and> str_field args (lit ''priority'') = Some priority
      \<and> str_field args (lit ''email'') = Some email \<longrightarrow>
      invoke (create_freshdesk_ticket lib cfg post) args
        = Inr (create_freshdesk_ticket lib cfg post subject description priority email)
      \<and> invoke (create_support_ticket lib cfg post) args
        = Inr (create_support_ticket lib cfg post subject description priority email))
   \<and> fst (create_freshdesk_ticket lib cfg post subject description priority email)
       \<in> freshdesk_ticket_texts subject
   \<and> fst (create_support_ticket lib cfg post subject description priority email)
       \<in> support_ticket_texts subject
   \<and> (freshdesk_configured cfg \<and> list_all is_ascii (FRESHDESK_API_KEY cfg)
        \<and> py_int lib priority = Some p
        \<and> ticket = \<lparr>p_description = description, p_subject = subject, p_email = email,
                      p_priority = p, p_status = 2\<rparr> \<longrightarrow>
        (post ticket = Inl e \<longrightarrow>
           fst (create_freshdesk_ticket lib cfg post subject description priority email)
             = unexpected_error_text
           \<and> fst (create_support_ticket lib cfg post subject description priority email)
             = (case e of Timeout \<Rightarrow> timeout_text | ConnectionError \<Rightarrow> connection_text
                | OtherError \<Rightarrow> unexpected_error_text_lg))
        \<and> (post ticket = Inr response \<and> \<not> resp_ok response
             \<and> resp_json response = Some (JObject error_json)
             \<and> map_of error_json (lit ''code'') = Some (lit ''invalid_credentials'') \<longrightarrow>
           fst (create_freshdesk_ticket lib cfg post subject description priority email)
             = auth_failed_text
           \<and> fst (create_support_ticket lib cfg post subject description priority email)
             = auth_failed_text_lg))
   \<and> (str_field args (lit ''subject'') = None \<or> str_field args (lit ''description'') = None
        \<or> str_field args (lit ''priority'') = None \<or> str_field args (lit ''email'') = None \<longrightarrow>
        invoke (create_freshdesk_ticket lib cfg post) args = Inl ValidationError
        \<and> invoke (create_support_ticket lib cfg post) args = Inl ValidationError
        \<and> run_tool_calls lib [create_freshdesk_ticket_tool lib cfg post]
             [\<lparr>tc_name = lit ''create_freshdesk_ticket'', tc_args = args\<rparr>]
            = ([ToolMessage (tool_error lib (lit ''create_freshdesk_ticket'') args)], []))"
proof (intro conjI impI)
  assume v: "str_field args (lit ''subject'') = Some subject
      \<and> str_field args (lit ''description'') = Some description
      \<and> str_field args (lit ''priority'') = Some priority
      \<and> str_field args (lit ''email'') = Some email"
  then show "invoke (create_freshdesk_ticket lib cfg post) args
        = Inr (create_freshdesk_ticket lib cfg post subject description priority email)"
    by (simp add: invoke_valid)
  from v show "invoke (create_support_ticket lib cfg post) args
        = Inr (create_support_ticket lib cfg post subject description priority email)"
    by (simp add: invoke_valid)
next
  show "fst (create_freshdesk_ticket lib cfg post subject description priority email)
       \<in> freshdesk_ticket_texts subject"
    by (rule create_freshdesk_ticket_texts)
next
  show "fst (create_support_ticket lib cfg post subject description priority email)
       \<in> support_ticket_texts subject"
    by (rule create_support_ticket_texts)
next
  assume r: "freshdesk_configured cfg \<and> list_all is_ascii (FRESHDESK_API_KEY cfg)
        \<and> py_int lib priority = Some p
        \<and> ticket = \<lparr>p_description = description, p_subject = subject, p_email = email,
                      p_priority = p, p_status = 2\<rparr>"
     and e: "post ticket = Inl e"
  from r e have
    "fst (create_freshdesk_ticket lib cfg post subject description priority email)
           = unexpected_error_text
     \<and> fst (create_support_ticket lib cfg post subject description priority email)
           = (case e of Timeout \<Rightarrow> timeout_text | ConnectionError \<Rightarrow> connection_text
              | OtherError \<Rightarrow> unexpected_error_text_lg)"
    using gateway_raises_texts [of cfg lib priority p post description subject email e]
    by blast
  then show "fst (create_freshdesk_ticket lib cfg post subject description priority email)
           = unexpected_error_text"
    and "fst (create_support_ticket lib cfg post subject description priority email)
           = (case e of Timeout \<Rightarrow> timeout_text | ConnectionError \<Rightarrow> connection_text
              | OtherError \<Rightarrow> unexpected_error_text_lg)"
    by blast+
next
  assume r: "freshdesk_configured cfg \<and> list_all is_ascii (FRESHDESK_API_KEY cfg)
        \<and> py_int lib priority = Some p
        \<and> ticket = \<lparr>p_description = description, p_subject = subject, p_email = email,
                      p_priority = p, p_status = 2\<rparr>"
     and c: "post ticket = Inr response \<and> \<not> resp_ok response
             \<and> resp_json response = Some (JObject error_json)
             \<and> map_of error_json (lit ''code'') = Some (lit ''invalid_credentials'')"
  from r c have
    "fst (create_freshdesk_ticket lib cfg post subject description priority email)
           = auth_failed_text
     \<and> fst (create_support_ticket lib cfg post subject description priority email)
           = auth_failed_text_lg"
    using invalid_credentials_texts
            [of cfg lib priority p post description subject email response error_json]
    by blast
  then show "fst (create_freshdesk_ticket lib cfg post subject description priority email)
           = auth_failed_text"
    and "fst (create_support_ticket lib cfg post subject description priority email)
           = auth_failed_text_lg"
    by blast+
next
  assume n: "str_field args (lit ''subject'') = None \<or> str_field args (lit ''description'') = None
        \<or> str_field args (lit ''priority'') = None \<or> str_field args (lit ''email'') = None"
  then show i: "invoke (create_freshdesk_ticket lib cfg post) args = Inl ValidationError"
    by (rule invoke_invalid)
  from n show "invoke (create_support_ticket lib cfg post) args = Inl ValidationError"
    by (rule invoke_invalid)
  from i show "run_tool_calls lib [create_freshdesk_ticket_tool lib cfg post]
             [\<lparr>tc_name = lit ''create_freshdesk_ticket'', tc_args = args\<rparr>]
            = ([ToolMessage (tool_error lib (lit ''create_freshdesk_ticket'') args)], [])"
    by (simp add: create_freshdesk_ticket_tool_def)
qed

lemma example_gateways:
  "gateway_invalid_credentials ticket =
     Inr \<lparr>resp_ok = False, resp_status_code = 401,
          resp_text = lit ''{\"code\": \"invalid_credentials\", \"message\": \"You have to be logged in\"}'',
          resp_json = Some (JObject [(lit ''code'', lit ''invalid_credentials''),
                                     (lit ''message'', lit ''You have to be logged in'')])\<rparr>"
  "gateway_times_out ticket = Inl Timeout"
  by (simp_all add: gateway_invalid_credentials_def gateway_times_out_def)

theorem ticket_tools_answer_with_text_witness:
  "str_field example_draft (lit ''subject'') = Some (lit ''VPN down'')
   \<and> str_field example_draft (lit ''description'') = Some (lit ''VPN does not connect'')
   \<and> str_field example_draft (lit ''priority'') = Some (lit ''3'')
   \<and> str_field example_draft (lit ''email'') = Some (lit ''a@b.com'')
   \<and> freshdesk_configured example_config
   \<and> list_all is_ascii (FRESHDESK_API_KEY example_config)
   \<and> py_int example_library (lit ''3'') = Some 3
   \<and> invoke (create_freshdesk_ticket example_library example_config
                gateway_invalid_credentials) example_draft
       = Inr (create_freshdesk_ticket example_library example_config
                gateway_invalid_credentials
                (lit ''VPN down'') (lit ''VPN does not connect'') (lit ''3'') (lit ''a@b.com''))
   \<and> fst (create_freshdesk_ticket example_library example_config gateway_invalid_credentials
             (lit ''VPN down'') (lit ''VPN does not connect'') (lit ''3'') (lit ''a@b.com''))
       = auth_failed_text
   \<and> fst (create_support_ticket example_library example_config gateway_invalid_credentials
             (lit ''VPN down'') (lit ''VPN does not connect'') (lit ''3'') (lit ''a@b.com''))
       = auth_failed_text_lg
   \<and> fst (create_freshdesk_ticket example_library example_config gateway_times_out
             (lit ''VPN down'') (lit ''VPN does not connect'') (lit ''3'') (lit ''a@b.com''))
       = unexpected_error_text
   \<and> fst (create_support_ticket example_library example_config gateway_times_out
             (lit ''VPN down'') (lit ''VPN does not connect'') (lit ''3'') (lit ''a@b.com''))
       = timeout_text
   \<and> str_field numeric_draft (lit ''priority'') = None
   \<and> invoke (create_freshdesk_ticket example_library example_config gateway_created)
        numeric_draft = Inl ValidationError"
proof -
  let ?ticket = "\<lparr>p_description = lit ''VPN does not connect'', p_subject = lit ''VPN down'',
                   p_email = lit ''a@b.com'', p_priority = 3, p_status = 2\<rparr>"
  let ?response = "\<lparr>resp_ok = False, resp_status_code = 401,
          resp_text = lit ''{\"code\": \"invalid_credentials\", \"message\": \"You have to be logged in\"}'',
          resp_json = Some (JObject [(lit ''code'', lit ''invalid_credentials''),
                                     (lit ''message'', lit ''You have to be logged in'')])\<rparr>"
  let ?json = "[(lit ''code'', lit ''invalid_credentials''),
                (lit ''message'', lit ''You have to be logged in'')]"
  note a = ticket_tools_answer_with_text
    [where lib = example_library and cfg = example_config
       and post = gateway_invalid_credentials and args = example_draft
       and subject = "lit ''VPN down''" and description = "lit ''VPN does not connect''"
       and priority = "lit ''3''" and email = "lit ''a@b.com''" and p = 3
       and ticket = ?ticket and response = ?response and error_json = ?json]
  note b = ticket_tools_answer_with_text
    [where lib = example_library and cfg = example_config
       and post = gateway_times_out and args = example_draft
       and subject = "lit ''VPN down''" and description = "lit ''VPN does not connect''"
       and priority = "lit ''3''" and email = "lit ''a@b.com''" and p = 3
       and ticket = ?ticket and e = Timeout]
  note c = ticket_tools_answer_with_text
    [where lib = example_library and cfg = example_config
       and post = gateway_created and args = numeric_draft]
  have g: "gateway_invalid_credentials ?ticket = Inr ?response" "\<not> resp_ok ?response"
          "resp_json ?response = Some (JObject ?json)"
          "map_of ?json (lit ''code'') = Some (lit ''invalid_credentials'')"
          "gateway_times_out ?ticket = Inl Timeout"
    by (simp_all add: example_gateways)
  have t: "?ticket = ?ticket" by (rule refl)
  from a example_draft_fields example_config_usable py_int_examples(1) g t
  have f1: "invoke (create_freshdesk_ticket example_library example_config
                gateway_invalid_credentials) example_draft
       = Inr (create_freshdesk_ticket example_library example_config
                gateway_invalid_credentials
                (lit ''VPN down'') (lit ''VPN does not connect'') (lit ''3'') (lit ''a@b.com''))"
    and f2: "fst (create_freshdesk_ticket example_library example_config
                   gateway_invalid_credentials
             (lit ''VPN down'') (lit ''VPN does not connect'') (lit ''3'') (lit ''a@b.com''))
       = auth_failed_text"
    and f3: "fst (create_support_ticket example_library example_config
                   gateway_invalid_credentials
             (lit ''VPN down'') (lit ''VPN does not connect'') (lit ''3'') (lit ''a@b.com''))
       = auth_failed_text_lg"
    by blast+
  from b example_config_usable py_int_examples(1) g t
  have f4: "fst (create_freshdesk_ticket example_library example_config gateway_times_out
             (lit ''VPN down'') (lit ''VPN does not connect'') (lit ''3'') (lit ''a@b.com''))
       = unexpected_error_text"
    and f5: "fst (create_support_ticket example_library example_config gateway_times_out
             (lit ''VPN down'') (lit ''VPN does not connect'') (lit ''3'') (lit ''a@b.com''))
       = (case Timeout of Timeout \<Rightarrow> timeout_text | ConnectionError \<Rightarrow> connection_text
          | OtherError \<Rightarrow> unexpected_error_text_lg)"
    by blast+
  from f5 have f5t: "fst (create_support_ticket example_library example_config gateway_times_out
             (lit ''VPN down'') (lit ''VPN does not connect'') (lit ''3'') (lit ''a@b.com''))
       = timeout_text"
    by simp
  from c numeric_draft_fields(1)
  have f6: "invoke (create_freshdesk_ticket example_library example_config gateway_created)
        numeric_draft = Inl ValidationError"
    by blast
  from example_draft_fields example_config_usable py_int_examples(1) f1 f2 f3 f4 f5t
       numeric_draft_fields(1) f6
  show ?thesis by blast
qed

theorem invoke_raises_counterexample:
  "map_of numeric_draft (lit ''priority'') = Some (PInt 3)
   \<and> invoke (create_freshdesk_ticket example_library example_config gateway_created)
        numeric_draft = Inl ValidationError
   \<and> invoke (create_support_ticket example_library example_config gateway_created)
        numeric_draft = Inl ValidationError"
  using numeric_draft_fields(1,4)
        invoke_invalid [of numeric_draft
          "create_freshdesk_ticket example_library example_config gateway_created"]
        invoke_invalid [of numeric_draft
          "create_support_ticket example_library example_config gateway_created"]
  by blast

text \<open>
  C6, as the code has it. The arguments of a ticket tool pass four checks before the
  request: the schema of \<open>invoke\<close> (all four there and strings), the settings (domain
  and API key set), \<open>int(priority)\<close> (any integer the library accepts, in or out of
  the range 1 to 4) and the ASCII encoding of the API key. Whether subject, description
  or email are empty is not looked at. A failed schema raises to the caller, a missing
  setting is answered by the fixed configuration text, and a priority that is no integer
  or a key that is not ASCII by the fixed text for unexpected errors, all without a
  request; in every other case exactly one request is made, with the arguments as they
  came.
\<close>

theorem ticket_tools_checks_before_request:
  "invoke t args =
     (case (str_field args (lit ''subject''), str_field args (lit ''description''),
            str_field args (lit ''priority''), str_field args (lit ''email'')) of
        (Some s, Some d, Some p, Some e) \<Rightarrow> Inr (t s d p e)
      | _ \<Rightarrow> Inl ValidationError)
   \<and> snd (create_freshdesk_ticket lib cfg post subject description priority email) =
     (if freshdesk_configured cfg \<and> list_all is_ascii (FRESHDESK_API_KEY cfg) then
        (case py_int lib priority of
           None \<Rightarrow> []
         | Some p \<Rightarrow> [\<lparr>p_description = description, p_subject = subject, p_email = email,
                       p_priority = p, p_status = 2\<rparr>])
      else [])
   \<and> snd (create_support_ticket lib cfg post subject description priority email) =
       snd (create_freshdesk_ticket lib cfg post subject description priority email)
   \<and> (\<not> freshdesk_configured cfg \<longrightarrow>
        fst (create_freshdesk_ticket lib cfg post subject description priority email)
          = config_issue_text
        \<and> fst (create_support_ticket lib cfg post subject description priority email)
          = config_issue_text_lg)
   \<and> (freshdesk_configured cfg
        \<and> (py_int lib priority = None \<or> \<not> list_all is_ascii (FRESHDESK_API_KEY cfg)) \<longrightarrow>
        fst (create_freshdesk_ticket lib cfg post subject description priority email)
          = unexpected_error_text
        \<and> fst (create_support_ticket lib cfg post subject description priority email)
          = unexpected_error_text_lg)"
proof -
  have i: "invoke t args =
     (case (str_field args (lit ''subject''), str_field args (lit ''description''),
            str_field args (lit ''priority''), str_field args (lit ''email'')) of
        (Some s, Some d, Some p, Some e) \<Rightarrow> Inr (t s d p e)
      | _ \<Rightarrow> Inl ValidationError)"
    by (auto simp add: invoke_valid invoke_invalid split: option.split)
  have b: "ticket_tool_body lib ct atx cfg post subject description priority email
             = (Inl OtherError, [])"
    if "freshdesk_configured cfg"
       "py_int lib priority = None \<or> \<not> list_all is_ascii (FRESHDESK_API_KEY cfg)"
    for ct atx
    using that tool_body_bad_priority [of cfg lib priority ct atx post subject description email]
          tool_body_bad_key [of cfg lib priority _ ct atx post subject description email]
    by (cases "py_int lib priority") auto
  have rest: "snd (create_freshdesk_ticket lib cfg post subject description priority email) =
     (if freshdesk_configured cfg \<and> list_all is_ascii (FRESHDESK_API_KEY cfg) then
        (case py_int lib priority of
           None \<Rightarrow> []
         | Some p \<Rightarrow> [\<lparr>p_description = description, p_subject = subject, p_email = email,
                       p_priority = p, p_status = 2\<rparr>])
      else [])
   \<and> snd (create_support_ticket lib cfg post subject description priority email) =
       snd (create_freshdesk_ticket lib cfg post subject description priority email)
   \<and> (\<not> freshdesk_configured cfg \<longrightarrow>
        fst (create_freshdesk_ticket lib cfg post subject description priority email)
          = config_issue_text
        \<and> fst (create_support_ticket lib cfg post subject description priority email)
          = config_issue_text_lg)
   \<and> (freshdesk_configured cfg
        \<and> (py_int lib priority = None \<or> \<not> list_all is_ascii (FRESHDESK_API_KEY cfg)) \<longrightarrow>
        fst (create_freshdesk_ticket lib cfg post subject description priority email)
          = unexpected_error_text
        \<and> fst (create_support_ticket lib cfg post subject description priority email)
          = unexpected_error_text_lg)"
    by (simp add: create_freshdesk_ticket_posted create_support_ticket_posted tool_body_posted)
       (auto simp add: create_freshdesk_ticket_def create_support_ticket_def
          tool_body_not_configured b)
  from i rest show ?thesis by (rule conjI)
qed

theorem ticket_tools_checks_before_request_witness:
  "\<not> freshdesk_configured default_config
   \<and> fst (create_freshdesk_ticket example_library default_config gateway_created
        (lit ''VPN down'') (lit ''VPN does not connect'') (lit ''3'') (lit ''a@b.com''))
       = config_issue_text
   \<and> snd (create_freshdesk_ticket example_library default_config gateway_created
        (lit ''VPN down'') (lit ''VPN does not connect'') (lit ''3'') (lit ''a@b.com'')) = []
   \<and> freshdesk_configured example_config
   \<and> py_int example_library (lit ''high'') = None
   \<and> fst (create_freshdesk_ticket example_library example_config gateway_created
        (lit ''VPN down'') (lit ''VPN does not connect'') (lit ''high'') (lit ''a@b.com''))
       = unexpected_error_text
   \<and> snd (create_freshdesk_ticket example_library example_config gateway_created
        (lit ''VPN down'') (lit ''VPN does not connect'') (lit ''high'') (lit ''a@b.com'')) = []"
proof -
  note a = ticket_tools_checks_before_request
    [where lib = example_library and cfg = default_config and post = gateway_created
       and subject = "lit ''VPN down''" and description = "lit ''VPN does not connect''"
       and priority = "lit ''3''" and email = "lit ''a@b.com''"
       and t = "create_freshdesk_ticket example_library default_config gateway_created"
       and args = example_draft]
  note b = ticket_tools_checks_before_request
    [where lib = example_library and cfg = example_config and post = gateway_created
       and subject = "lit ''VPN down''" and description = "lit ''VPN does not connect''"
       and priority = "lit ''high''" and email = "lit ''a@b.com''"
       and t = "create_freshdesk_ticket example_library example_config gateway_created"
       and args = example_draft]
  from a default_config_unusable
  have f1: "fst (create_freshdesk_ticket example_library default_config gateway_created
        (lit ''VPN down'') (lit ''VPN does not connect'') (lit ''3'') (lit ''a@b.com''))
       = config_issue_text"
    by blast
  from a default_config_unusable
  have f2: "snd (create_freshdesk_ticket example_library default_config gateway_created
        (lit ''VPN down'') (lit ''VPN does not connect'') (lit ''3'') (lit ''a@b.com'')) = []"
    by simp
  from b example_config_usable py_int_examples(3)
  have f3: "fst (create_freshdesk_ticket example_library example_config gateway_created
        (lit ''VPN down'') (lit ''VPN does not connect'') (lit ''high'') (lit ''a@b.com''))
       = unexpected_error_text"
    by blast
  from b example_config_usable py_int_examples(3)
  have f4: "snd (create_freshdesk_ticket example_library example_config gateway_created
        (lit ''VPN down'') (lit ''VPN does not connect'') (lit ''high'') (lit ''a@b.com'')) = []"
    by simp
  from default_config_unusable example_config_usable(1) py_int_examples(3) f1 f2 f3 f4
  show ?thesis by blast
qed

lemma gateway_created_text:
  "py_int lib priority = Some p \<Longrightarrow>
   create_freshdesk_ticket lib example_config gateway_created subject description priority email =
     (success_text (lit ''42'') subject (dict_get priority_names p (lit ''Medium''))
        (lit ''https://acme.freshdesk.com/a/tickets/42''),
      [\<lparr>p_description = description, p_subject = subject, p_email = email,
        p_priority = p, p_status = 2\<rparr>])"
  using example_config_usable
  by (simp add: create_freshdesk_ticket_def ticket_tool_body_def freshdesk_configured_def
        gateway_created_def render_response_def)
     (simp add: example_config_def lit_def)

lemma priority_name_examples:
  "dict_get priority_names 3 (lit ''Medium'') = lit ''High''"
  "dict_get priority_names 9 (lit ''Medium'') = lit ''Medium''"
  by (simp_all add: dict_get_def priority_names_def)

theorem ticket_tools_validation_counterexample:
  "invoke (create_freshdesk_ticket example_library example_config gateway_created)
     [(lit ''subject'', PStr []), (lit ''description'', PStr []),
      (lit ''priority'', PStr (lit ''9'')), (lit ''email'', PStr [])] =
     Inr (success_text (lit ''42'') [] (lit ''Medium'')
            (lit ''https://acme.freshdesk.com/a/tickets/42''),
          [\<lparr>p_description = [], p_subject = [], p_email = [], p_priority = 9,
            p_status = 2\<rparr>])"
  using gateway_created_text [OF py_int_examples(2), of "[]" "[]" "[]"]
  by (simp add: invoke_def validate_args_def priority_name_examples)

section \<open>The chat endpoint\<close>

text \<open>
  C7. A request whose action is the decline is answered by the fixed acknowledgement:
  nothing is posted to the endpoint, whatever the model and the draft are, the response
  reports no created ticket, no identifier and no pending approval, and the stored
  history gains the acknowledgement alone.
\<close>

theorem decline_acknowledged:
  assumes "rq_action request = Some (lit ''decline_ticket'')"
  shows "chat_endpoint lib cfg post model db request =
     (Inr \<lparr>rs_success = True, rs_content = decline_message,
           rs_conversationId = rq_conversationId request, rs_needsApproval = False,
           rs_ticketSummary = None, rs_interactiveButtons = None, rs_ticketCreated = False,
           rs_ticketId = None, rs_ticketNumber = None\<rparr>,
      append_messages db (rq_conversationId request)
        [\<lparr>sm_role = lit ''assistant'', sm_content = decline_message,
          sm_ticketId = None, sm_ticketNumber = None\<rparr>],
      [])"
  using assms
  by (simp add: chat_endpoint_def approved_ticket_data_def new_response_def Let_def)

theorem decline_acknowledged_witness:
  "rq_action (example_request ''no thanks'' (Some ''decline_ticket'') (Some example_draft))
     = Some (lit ''decline_ticket'')
   \<and> chat_endpoint example_library example_config gateway_created
        (model_requests (lit ''On it'')) empty_db
        (example_request ''no thanks'' (Some ''decline_ticket'') (Some example_draft)) =
     (Inr \<lparr>rs_success = True, rs_content = decline_message,
           rs_conversationId = lit ''c1'', rs_needsApproval = False,
           rs_ticketSummary = None, rs_interactiveButtons = None, rs_ticketCreated = False,
           rs_ticketId = None, rs_ticketNumber = None\<rparr>,
      append_messages empty_db (lit ''c1'')
        [\<lparr>sm_role = lit ''assistant'', sm_content = decline_message,
          sm_ticketId = None, sm_ticketNumber = None\<rparr>],
      [])"
  using decline_acknowledged
          [of "example_request ''no thanks'' (Some ''decline_ticket'') (Some example_draft)"
              example_library example_config gateway_created "model_requests (lit ''On it'')"
              empty_db]
  by (simp add: example_request_def)

text \<open>
  C8. When the workflow of the normal chat flow raises, the endpoint leaves both
  dictionaries as they were, so no message of the turn is stored, and the caller gets an
  HTTP error in place of a response: status 401 with a fixed detail when the text of the
  error mentions \<open>auth\<close>, status 500 with the text of the error otherwise.
\<close>

theorem workflow_failure_leaves_state:
  assumes "approved_ticket_data request = None"
      and "rq_action request \<noteq> Some (lit ''decline_ticket'')"
      and "run_workflow lib cfg post model db request = (Inl error, posted)"
  shows "chat_endpoint lib cfg post model db request
           = (Inl (error_response lib error), db, posted)
         \<and> error_response lib error =
             (if py_in (lit ''auth'') (py_lower lib (exn_str error))
              then HTTPException 401
                     (lit ''Authentication failed. Please refresh and try again.'')
              else HTTPException 500
                     (lit ''Sorry, I encountered an error: '' @ exn_str error))"
  using assms by (simp add: chat_endpoint_def error_response_def)

lemma lower_examples:
  "py_lower example_library (lit ''hello'') = lit ''hello''"
  "py_lower example_library (lit ''please escalate this'') = lit ''please escalate this''"
  "py_lower example_library (lit ''Please ESCALATE this'') = lit ''please escalate this''"
  "py_lower example_library (lit ''My VPN does not connect'') = lit ''my vpn does not connect''"
  "py_lower example_library (lit ''yes it works now'') = lit ''yes it works now''"
  "py_lower example_library (lit ''yes please'') = lit ''yes please''"
  "py_lower example_library (lit ''Connection error.'') = lit ''connection error.''"
  by (simp_all add: example_library_def ascii_lower_def lit_def)

lemma keyword_examples:
  "\<not> any_keyword_in main_ticket_keywords (lit ''hello'')"
  "\<not> any_keyword_in ticket_keywords (lit ''hello'')"
  "\<not> any_keyword_in main_ticket_keywords (lit ''please escalate this'')"
  "any_keyword_in ticket_keywords (lit ''please escalate this'')"
  "\<not> any_keyword_in ticket_keywords (lit ''my vpn does not connect'')"
  "any_keyword_in main_ticket_keywords (lit ''yes it works now'')"
  "\<not> any_keyword_in ticket_keywords (lit ''yes it works now'')"
  "any_keyword_in main_ticket_keywords (lit ''yes please'')"
  by (simp_all add: any_keyword_in_def main_ticket_keywords_def ticket_keywords_def lit_def)

lemma example_openai_key:
  "OPENAI_API_KEY example_config \<noteq> []"
  "OPENAI_API_KEY example_config \<noteq> lit ''your-openai-api-key-here''"
  by (simp_all add: example_config_def)

lemma run_workflow_model_raises:
  "run_workflow example_library example_config gateway_created model_raises empty_db
     (example_request ''hello'' None None) = (Inl (Exception (lit ''Connection error.'')), [])"
  using example_openai_key
  by (simp add: run_workflow_def example_request_def empty_db_def Let_def lower_examples
        keyword_examples run_multi_agent_workflow_def multi_agent_workflow_def
        supervisor_routing_def chat_node_def model_raises_def)

theorem workflow_failure_leaves_state_witness:
  "approved_ticket_data (example_request ''hello'' None None) = None
   \<and> rq_action (example_request ''hello'' None None) \<noteq> Some (lit ''decline_ticket'')
   \<and> run_workflow example_library example_config gateway_created model_raises empty_db
        (example_request ''hello'' None None)
       = (Inl (Exception (lit ''Connection error.'')), [])
   \<and> chat_endpoint example_library example_config gateway_created model_raises empty_db
        (example_request ''hello'' None None) =
       (Inl (HTTPException 500 (lit ''Sorry, I encountered an error: Connection error.'')),
        empty_db, [])"
proof -
  let ?r = "example_request ''hello'' None None"
  have a: "approved_ticket_data ?r = None" "rq_action ?r \<noteq> Some (lit ''decline_ticket'')"
    by (simp_all add: approved_ticket_data_def example_request_def)
  have n: "\<not> py_in (lit ''auth'') (lit ''connection error.'')"
    by (simp add: lit_def)
  note t = workflow_failure_leaves_state [OF a run_workflow_model_raises]
  from t n have "chat_endpoint example_library example_config gateway_created model_raises
                   empty_db ?r =
       (Inl (HTTPException 500
               (lit ''Sorry, I encountered an error: '' @ lit ''Connection error.'')),
        empty_db, [])"
    by (simp add: lower_examples)
  then have "chat_endpoint example_library example_config gateway_created model_raises
                   empty_db ?r =
       (Inl (HTTPException 500 (lit ''Sorry, I encountered an error: Connection error.'')),
        empty_db, [])"
    by (simp add: lit_def)
  with a run_workflow_model_raises show ?thesis by blast
qed

section \<open>Routing\<close>

lemma startswith_iff: "startswith s k \<longleftrightarrow> (\<exists>rest. s = k @ rest)"
  by (induction s k rule: startswith.induct) auto

lemma py_in_iff: "py_in k s \<longleftrightarrow> occurs_in k s"
  unfolding occurs_in_def
proof (induction s)
  case Nil
  then show ?case by auto
next
  case (Cons c cs)
  show ?case
  proof
    assume "py_in k (c # cs)"
    then consider "startswith (c # cs) k" | "py_in k cs" by auto
    then show "\<exists>before after. c # cs = before @ k @ after"
    proof cases
      case 1
      then obtain rest where "c # cs = k @ rest" by (auto simp: startswith_iff)
      then have "c # cs = [] @ k @ rest" by simp
      then show ?thesis by blast
    next
      case 2
      with Cons obtain before after where "cs = before @ k @ after" by blast
      then have "c # cs = (c # before) @ k @ after" by simp
      then show ?thesis by blast
    qed
  next
    assume "\<exists>before after. c # cs = before @ k @ after"
    then obtain before after where eq: "c # cs = before @ k @ after" by blast
    show "py_in k (c # cs)"
    proof (cases before)
      case Nil
      with eq have "startswith (c # cs) k" by (auto simp: startswith_iff)
      then show ?thesis by simp
    next
      case (Cons b bs)
      with eq have "cs = bs @ k @ after" by simp
      with Cons.IH have "py_in k cs" by blast
      then show ?thesis by simp
    qed
  qed
qed

lemma any_keyword_in_iff:
  "any_keyword_in keywords s \<longleftrightarrow> (\<exists>keyword \<in> set keywords. occurs_in keyword s)"
  by (simp add: any_keyword_in_def list_ex_iff py_in_iff)

text \<open>
  C3, as the code has it. A turn of the normal chat flow is first tested by the endpoint
  against its own five keywords: when one of them occurs in the lowered message, the
  turn goes to the approval workflow, which drafts a ticket. Only otherwise does the
  router of the multi-agent workflow decide: it answers \<open>ticket\<close> when one of its eight
  keywords occurs in the lowered message, and \<open>chat\<close> otherwise. Both decisions depend
  on the latest message alone, through \<open>str.lower\<close>.
\<close>

theorem routing_by_keyword:
  "run_workflow lib cfg post model db request =
     (if \<exists>keyword \<in> set main_ticket_keywords.
           occurs_in keyword (py_lower lib (rq_message request))
      then run_approval_workflow lib model (rq_message request)
             (map (\<lambda>msg. (sm_role msg, sm_content msg))
                (case messages_db db (rq_conversationId request) of
                   None \<Rightarrow> [] | Some ms \<Rightarrow> ms))
             (or_default (rq_userId request) (lit ''test-user''))
             (rq_conversationId request)
             (or_default (rq_userEmail request) (lit ''user@example.com''))
      else run_multi_agent_workflow lib cfg post model (rq_message request)
             (map (\<lambda>msg. (sm_role msg, sm_content msg))
                (case messages_db db (rq_conversationId request) of
                   None \<Rightarrow> [] | Some ms \<Rightarrow> ms))
             (or_default (rq_userId request) (lit ''test-user''))
             (rq_conversationId request)
             (or_default (rq_userEmail request) (lit ''user@example.com'')))
   \<and> supervisor_routing lib (state\<lparr>messages := history @ [HumanMessage message]\<rparr>) =
       (if \<exists>keyword \<in> set ticket_keywords. occurs_in keyword (py_lower lib message)
        then ''ticket'' else ''chat'')
   \<and> multi_agent_workflow lib cfg post model state =
       (if supervisor_routing lib state = ''ticket''
        then ticket_agent lib cfg post model state
        else (chat_node model state, []))"
  by (simp add: run_workflow_def supervisor_routing_def multi_agent_workflow_def Let_def
        any_keyword_in_iff)

theorem routing_by_keyword_witness:
  "(\<exists>keyword \<in> set ticket_keywords.
      occurs_in keyword (py_lower example_library (lit ''Please ESCALATE this'')))
   \<and> supervisor_routing example_library
        \<lparr>messages = [HumanMessage (lit ''I need a manager''),
                     AIMessage (lit ''How can I help?'') [],
                     HumanMessage (lit ''Please ESCALATE this'')],
         user_id = lit ''u1'', conversation_id = lit ''c1'', user_email = lit ''u@x.com'',
         current_agent = [], ticket_data = None, needs_approval = False\<rparr> = ''ticket''
   \<and> \<not> (\<exists>keyword \<in> set ticket_keywords.
          occurs_in keyword (py_lower example_library (lit ''My VPN does not connect'')))
   \<and> supervisor_routing example_library
        \<lparr>messages = [HumanMessage (lit ''I need a manager''),
                     AIMessage (lit ''How can I help?'') [],
                     HumanMessage (lit ''My VPN does not connect'')],
         user_id = lit ''u1'', conversation_id = lit ''c1'', user_email = lit ''u@x.com'',
         current_agent = [], ticket_data = None, needs_approval = False\<rparr> = ''chat''
   \<and> (\<exists>keyword \<in> set main_ticket_keywords.
         occurs_in keyword
           (py_lower example_library (rq_message (example_request ''yes please'' None None))))
   \<and> run_workflow example_library example_config gateway_created model_names_tools empty_db
        (example_request ''yes please'' None None) =
       run_approval_workflow example_library model_names_tools (lit ''yes please'') []
         (lit ''u1'') (lit ''c1'') (lit ''u@x.com'')"
proof -
  let ?st = "\<lparr>messages = [], user_id = lit ''u1'', conversation_id = lit ''c1'',
               user_email = lit ''u@x.com'',
               current_agent = [], ticket_data = None, needs_approval = False\<rparr>"
  let ?h = "[HumanMessage (lit ''I need a manager''), AIMessage (lit ''How can I help?'') []]"
  have a: "\<exists>keyword \<in> set ticket_keywords.
      occurs_in keyword (py_lower example_library (lit ''Please ESCALATE this''))"
    using keyword_examples(4) by (simp add: lower_examples any_keyword_in_iff)
  have b: "\<not> (\<exists>keyword \<in> set ticket_keywords.
          occurs_in keyword (py_lower example_library (lit ''My VPN does not connect'')))"
    using keyword_examples(5) by (simp add: lower_examples any_keyword_in_iff)
  have c: "\<exists>keyword \<in> set main_ticket_keywords.
         occurs_in keyword
           (py_lower example_library (rq_message (example_request ''yes please'' None None)))"
    using keyword_examples(8) by (simp add: lower_examples any_keyword_in_iff example_request_def)
  note t1 = routing_by_keyword
    [where lib = example_library and state = ?st and history = ?h
       and message = "lit ''Please ESCALATE this''"]
  note t2 = routing_by_keyword
    [where lib = example_library and state = ?st and history = ?h
       and message = "lit ''My VPN does not connect''"]
  note t3 = routing_by_keyword
    [where lib = example_library and cfg = example_config and post = gateway_created
       and model = model_names_tools and db = empty_db
       and request = "example_request ''yes please'' None None"]
  from t1 a have f1: "supervisor_routing example_library
        (?st\<lparr>messages := ?h @ [HumanMessage (lit ''Please ESCALATE this'')]\<rparr>) = ''ticket''"
    by simp
  from t2 b have f2: "supervisor_routing example_library
        (?st\<lparr>messages := ?h @ [HumanMessage (lit ''My VPN does not connect'')]\<rparr>) = ''chat''"
    by simp
  from conjunct1 [OF t3] c
  have f3: "run_workflow example_library example_config gateway_created model_names_tools
        empty_db (example_request ''yes please'' None None) =
       run_approval_workflow example_library model_names_tools (lit ''yes please'') []
         (lit ''u1'') (lit ''c1'') (lit ''u@x.com'')"
    by (simp add: example_request_def empty_db_def or_default_def)
  from f1 f2 have f12:
    "supervisor_routing example_library
        \<lparr>messages = [HumanMessage (lit ''I need a manager''),
                     AIMessage (lit ''How can I help?'') [],
                     HumanMessage (lit ''Please ESCALATE this'')],
         user_id = lit ''u1'', conversation_id = lit ''c1'', user_email = lit ''u@x.com'',
         current_agent = [], ticket_data = None, needs_approval = False\<rparr> = ''ticket''"
    "supervisor_routing example_library
        \<lparr>messages = [HumanMessage (lit ''I need a manager''),
                     AIMessage (lit ''How can I help?'') [],
                     HumanMessage (lit ''My VPN does not connect'')],
         user_id = lit ''u1'', conversation_id = lit ''c1'', user_email = lit ''u@x.com'',
         current_agent = [], ticket_data = None, needs_approval = False\<rparr> = ''chat''"
    by simp_all
  from a b c f12 f3 show ?thesis by blast
qed

lemma names_tools_drafting:
  "fst (run_approval_workflow example_library model_names_tools message history uid cid email) =
     Inr \<lparr>wr_content = lit ''generate_ticket_details'', wr_needsApproval = True,
          wr_ticketDetails = None, wr_toolsUsed = [lit ''generate_ticket_details''],
          wr_issueType = lit ''ticket_approval'', wr_ticketCreated = False,
          wr_ticketId = None\<rparr>"
  by (simp add: run_approval_workflow_def approval_workflow_def analyze_for_ticket_def
        approval_tools_def generate_ticket_details_tool_def model_names_tools_def
        should_generate_details_def last_message_def Let_def)

theorem router_bypassed_counterexample:
  "\<not> any_keyword_in ticket_keywords (py_lower example_library (lit ''yes it works now''))
   \<and> fst (run_workflow example_library example_config gateway_created model_names_tools
            empty_db (example_request ''yes it works now'' None None)) =
       Inr \<lparr>wr_content = lit ''generate_ticket_details'', wr_needsApproval = True,
            wr_ticketDetails = None, wr_toolsUsed = [lit ''generate_ticket_details''],
            wr_issueType = lit ''ticket_approval'', wr_ticketCreated = False,
            wr_ticketId = None\<rparr>"
  using keyword_examples(6,7)
  by (simp add: run_workflow_def example_request_def Let_def lower_examples
        names_tools_drafting)

section \<open>What a model can reach\<close>

lemma run_tool_calls_approval: "snd (run_tool_calls lib approval_tools tcs) = []"
  by (induction tcs)
     (auto simp add: approval_tools_def generate_ticket_details_tool_def invoke_def Let_def
        split: prod.split option.split sum.split)

lemma tool_node_approval:
  "tool_node lib approval_tools ms = (observations, posted) \<Longrightarrow> posted = []"
  using run_tool_calls_approval [of lib "tool_calls (last ms)"]
  by (auto simp add: tool_node_def split: if_splits)

lemma approval_workflow_posts_nothing: "snd (approval_workflow lib model state) = []"
  by (auto simp add: approval_workflow_def Let_def
        split: sum.split prod.split dest: tool_node_approval)

lemma run_approval_workflow_posts_nothing:
  "snd (run_approval_workflow lib model message history uid cid email) = []"
  unfolding run_approval_workflow_def Let_def
  using approval_workflow_posts_nothing
         [of lib model "\<lparr>ap_messages = convert_history history @ [HumanMessage message],
              ap_user_id = uid, ap_conversation_id = cid,
              ap_user_email = email, ap_ticket_details = None,
              ap_approval_needed = False, ap_user_approved = False\<rparr>"]
  by (auto split: prod.split sum.split)

lemma chat_route_posts_nothing:
  "\<not> any_keyword_in ticket_keywords (py_lower lib message) \<Longrightarrow>
     snd (run_multi_agent_workflow lib cfg post model message history uid cid email) = []"
  by (auto simp add: run_multi_agent_workflow_def multi_agent_workflow_def
        supervisor_routing_def Let_def split: prod.split sum.split)

lemma normal_flow_posted:
  "approved_ticket_data request = None \<Longrightarrow>
   rq_action request \<noteq> Some (lit ''decline_ticket'') \<Longrightarrow>
     snd (snd (chat_endpoint lib cfg post model db request))
       = snd (run_workflow lib cfg post model db request)"
  by (auto simp add: chat_endpoint_def Let_def split: prod.split sum.split option.split)

lemma run_workflow_action:
  "run_workflow lib cfg post model db (request\<lparr>rq_action := a\<rparr>)
     = run_workflow lib cfg post model db request"
  by (simp add: run_workflow_def Let_def)

lemma example_ticket_filed:
  "create_freshdesk_ticket example_library example_config gateway_created
     (lit ''VPN down'') (lit ''VPN does not connect'') (lit ''3'') email =
     (success_text (lit ''42'') (lit ''VPN down'') (lit ''High'')
        (lit ''https://acme.freshdesk.com/a/tickets/42''),
      [\<lparr>p_description = lit ''VPN does not connect'', p_subject = lit ''VPN down'',
        p_email = email, p_priority = 3, p_status = 2\<rparr>])"
  using gateway_created_text [OF py_int_examples(1)]
  by (simp add: priority_name_examples)

lemma model_files_ticket:
  "snd (run_workflow example_library example_config gateway_created (model_requests reply)
          empty_db (example_request ''please escalate this'' action ticketData)) =
     [\<lparr>p_description = lit ''VPN does not connect'', p_subject = lit ''VPN down'',
       p_email = lit ''a@b.com'', p_priority = 3, p_status = 2\<rparr>]"
  using example_openai_key validate_args_Some [THEN iffD2, of example_draft, OF conjI,
          OF example_draft_fields(1) conjI, OF example_draft_fields(2) conjI,
          OF example_draft_fields(3) example_draft_fields(4)]
  apply (simp add: run_workflow_def keyword_examples lower_examples example_request_def
        empty_db_def run_multi_agent_workflow_def multi_agent_workflow_def
        supervisor_routing_def Let_def)
  apply (simp add: ticket_agent_def ticket_analysis_node_def ticket_agent_tools_def
        create_freshdesk_ticket_tool_def model_requests_def should_use_tools_def
        last_message_def tool_node_def invoke_def Let_def)
  apply (simp add: example_ticket_filed split: prod.split)
  done

text \<open>
  C1, as the code has it. The model of the chat agent has no tool bound to it and the
  model of the approval workflow only the preview tool \<open>generate_ticket_details\<close>;
  whatever these models ask for, nothing is posted to the endpoint. The model of the
  ticket agent is bound to \<open>create_freshdesk_ticket\<close>, the tool that files, so a
  ticket can be posted by a model's choice exactly on the turns routed to that agent.
\<close>

theorem model_actions_by_behaviour:
  "chat_agent_tools = []
   \<and> map fst approval_tools = [lit ''generate_ticket_details'']
   \<and> map fst (ticket_agent_tools lib cfg post) = [lit ''create_freshdesk_ticket'']
   \<and> snd (run_approval_workflow lib model message history uid cid email) = []
   \<and> (\<not> any_keyword_in ticket_keywords (py_lower lib message) \<longrightarrow>
        snd (run_multi_agent_workflow lib cfg post model message history uid cid email) = [])"
  by (simp add: chat_agent_tools_def approval_tools_def generate_ticket_details_tool_def
        ticket_agent_tools_def create_freshdesk_ticket_tool_def
        run_approval_workflow_posts_nothing chat_route_posts_nothing)

theorem model_actions_by_behaviour_witness:
  "\<not> any_keyword_in ticket_keywords (py_lower example_library (lit ''My VPN does not connect''))
   \<and> snd (run_multi_agent_workflow example_library example_config gateway_created
            (model_requests (lit ''On it''))
            (lit ''My VPN does not connect'') [] (lit ''u1'') (lit ''c1'') (lit ''u@x.com'')) = []"
proof -
  have "\<not> any_keyword_in ticket_keywords
            (py_lower example_library (lit ''My VPN does not connect''))"
    by (simp add: lower_examples keyword_examples)
  with model_actions_by_behaviour
         [of example_library example_config gateway_created "model_requests (lit ''On it'')"
             "lit ''My VPN does not connect''" "[]" "lit ''u1''" "lit ''c1''" "lit ''u@x.com''"]
  show ?thesis by blast
qed

theorem model_files_ticket_counterexample:
  "rq_action (example_request ''please escalate this'' None None) = None
   \<and> map fst (ticket_agent_tools example_library example_config gateway_created)
       = [lit ''create_freshdesk_ticket'']
   \<and> snd (snd (chat_endpoint example_library example_config gateway_created
                 (model_requests (lit ''On it'')) empty_db
                 (example_request ''please escalate this'' None None))) =
       [\<lparr>p_description = lit ''VPN does not connect'', p_subject = lit ''VPN down'',
         p_email = lit ''a@b.com'', p_priority = 3, p_status = 2\<rparr>]"
proof -
  let ?r = "example_request ''please escalate this'' None None"
  have n: "approved_ticket_data ?r = None" "rq_action ?r \<noteq> Some (lit ''decline_ticket'')"
    by (simp_all add: approved_ticket_data_def example_request_def)
  have a: "rq_action ?r = None" by (simp add: example_request_def)
  have t: "map fst (ticket_agent_tools example_library example_config gateway_created)
       = [lit ''create_freshdesk_ticket'']"
    by (simp add: ticket_agent_tools_def create_freshdesk_ticket_tool_def)
  have "snd (snd (chat_endpoint example_library example_config gateway_created
                 (model_requests (lit ''On it'')) empty_db ?r)) =
       [\<lparr>p_description = lit ''VPN does not connect'', p_subject = lit ''VPN down'',
         p_email = lit ''a@b.com'', p_priority = 3, p_status = 2\<rparr>]"
    using normal_flow_posted [OF n, of example_library example_config gateway_created
            "model_requests (lit ''On it'')" empty_db]
          model_files_ticket [of "lit ''On it''" None None]
    by simp
  with a t show ?thesis by blast
qed

section \<open>Approval without and with a draft\<close>

text \<open>
  C9, as the code has it. A request whose action is the approval but whose draft is
  missing or empty is handled exactly as the same request without an action: the normal
  chat flow runs, \<open>create_ticket_directly\<close> does not, and no error about the missing
  draft arises. Nothing is posted when the message goes to the approval workflow or to
  the chat agent; when it goes to the ticket agent, what is posted is the model's
  choice.
\<close>

theorem approve_without_draft_is_normal_turn:
  assumes "rq_action request = Some (lit ''approve_ticket'')"
      and "rq_ticketData request = None \<or> rq_ticketData request = Some []"
  shows "chat_endpoint lib cfg post model db request =
           chat_endpoint lib cfg post model db (request\<lparr>rq_action := None\<rparr>)
         \<and> (any_keyword_in main_ticket_keywords (py_lower lib (rq_message request))
              \<or> \<not> any_keyword_in ticket_keywords (py_lower lib (rq_message request)) \<longrightarrow>
            snd (snd (chat_endpoint lib cfg post model db request)) = [])"
proof -
  have n: "approved_ticket_data request = None"
          "rq_action request \<noteq> Some (lit ''decline_ticket'')"
    using assms by (auto simp add: approved_ticket_data_def)
  have same: "chat_endpoint lib cfg post model db request =
           chat_endpoint lib cfg post model db (request\<lparr>rq_action := None\<rparr>)"
    using n by (simp add: chat_endpoint_def approved_ticket_data_def run_workflow_action Let_def
                  split: prod.split sum.split)
  have "snd (run_workflow lib cfg post model db request) = []"
    if "any_keyword_in main_ticket_keywords (py_lower lib (rq_message request))
              \<or> \<not> any_keyword_in ticket_keywords (py_lower lib (rq_message request))"
    using that
    by (auto simp add: run_workflow_def Let_def run_approval_workflow_posts_nothing
          chat_route_posts_nothing)
  then have quiet: "any_keyword_in main_ticket_keywords (py_lower lib (rq_message request))
              \<or> \<not> any_keyword_in ticket_keywords (py_lower lib (rq_message request)) \<longrightarrow>
            snd (snd (chat_endpoint lib cfg post model db request)) = []"
    using normal_flow_posted [OF n, of lib cfg post model db] by simp
  from same quiet show ?thesis by (rule conjI)
qed

theorem approve_without_draft_is_normal_turn_witness:
  "rq_action (example_request ''yes please'' (Some ''approve_ticket'') None)
     = Some (lit ''approve_ticket'')
   \<and> rq_ticketData (example_request ''yes please'' (Some ''approve_ticket'') None) = None
   \<and> any_keyword_in main_ticket_keywords
        (py_lower example_library
           (rq_message (example_request ''yes please'' (Some ''approve_ticket'') None)))
   \<and> chat_endpoint example_library example_config gateway_created
        (model_requests (lit ''On it'')) empty_db
        (example_request ''yes please'' (Some ''approve_ticket'') None) =
       chat_endpoint example_library example_config gateway_created
        (model_requests (lit ''On it'')) empty_db
        ((example_request ''yes please'' (Some ''approve_ticket'') None)\<lparr>rq_action := None\<rparr>)
   \<and> snd (snd (chat_endpoint example_library example_config gateway_created
                 (model_requests (lit ''On it'')) empty_db
                 (example_request ''yes please'' (Some ''approve_ticket'') None))) = []"
proof -
  let ?r = "example_request ''yes please'' (Some ''approve_ticket'') None"
  have a: "rq_action ?r = Some (lit ''approve_ticket'')" by (simp add: example_request_def)
  have b: "rq_ticketData ?r = None" by (simp add: example_request_def)
  have k: "any_keyword_in main_ticket_keywords (py_lower example_library (rq_message ?r))"
    by (simp add: example_request_def lower_examples keyword_examples)
  from b have b': "rq_ticketData ?r = None \<or> rq_ticketData ?r = Some []" by (rule disjI1)
  note t = approve_without_draft_is_normal_turn
             [OF a b', of example_library example_config gateway_created
                "model_requests (lit ''On it'')" empty_db]
  from a b k t show ?thesis by blast
qed

theorem approve_without_draft_counterexample:
  "rq_action (example_request ''please escalate this'' (Some ''approve_ticket'') None)
     = Some (lit ''approve_ticket'')
   \<and> rq_ticketData (example_request ''please escalate this'' (Some ''approve_ticket'') None)
       = None
   \<and> snd (snd (chat_endpoint example_library example_config gateway_created
                 (model_requests (lit ''On it'')) empty_db
                 (example_request ''please escalate this'' (Some ''approve_ticket'') None))) =
       [\<lparr>p_description = lit ''VPN does not connect'', p_subject = lit ''VPN down'',
         p_email = lit ''a@b.com'', p_priority = 3, p_status = 2\<rparr>]"
proof -
  let ?r = "example_request ''please escalate this'' (Some ''approve_ticket'') None"
  have n: "approved_ticket_data ?r = None" "rq_action ?r \<noteq> Some (lit ''decline_ticket'')"
    by (simp_all add: approved_ticket_data_def example_request_def)
  have a: "rq_action ?r = Some (lit ''approve_ticket'')" "rq_ticketData ?r = None"
    by (simp_all add: example_request_def)
  have "snd (snd (chat_endpoint example_library example_config gateway_created
                 (model_requests (lit ''On it'')) empty_db ?r)) =
       [\<lparr>p_description = lit ''VPN does not connect'', p_subject = lit ''VPN down'',
         p_email = lit ''a@b.com'', p_priority = 3, p_status = 2\<rparr>]"
    using normal_flow_posted [OF n, of example_library example_config gateway_created
            "model_requests (lit ''On it'')" empty_db]
          model_files_ticket [of "lit ''On it''" "Some ''approve_ticket''" None]
    by simp
  with a show ?thesis by blast
qed

lemma create_ticket_directly_posted:
  "snd (create_ticket_directly lib cfg post ticketData email) =
     (case (str_field ticketData (lit ''subject''), str_field ticketData (lit ''description''),
            str_field ticketData (lit ''priority'')) of
        (Some subject, Some description, Some priority) \<Rightarrow>
          snd (create_freshdesk_ticket lib cfg post subject description priority email)
      | _ \<Rightarrow> [])"
  by (simp add: create_ticket_directly_def invoke_def validate_args_def str_field_def Let_def
        split: option.split prod.split pyval.split)

lemma approve_branch:
  assumes "rq_action request = Some (lit ''approve_ticket'')"
      and "rq_ticketData request = Some ticketData" and "ticketData \<noteq> []"
      and "email = or_default (rq_userEmail request) (lit ''user@example.com'')"
  shows "chat_endpoint lib cfg post model db request =
           (let (ticket_result, posted) = create_ticket_directly lib cfg post ticketData email
            in (Inr \<lparr>rs_success = True, rs_content = tr_content ticket_result,
                     rs_conversationId = rq_conversationId request, rs_needsApproval = False,
                     rs_ticketSummary = None, rs_interactiveButtons = None,
                     rs_ticketCreated = tr_success ticket_result,
                     rs_ticketId = tr_ticketId ticket_result,
                     rs_ticketNumber = tr_ticketNumber ticket_result\<rparr>,
                append_messages db (rq_conversationId request)
                  [\<lparr>sm_role = lit ''assistant'', sm_content = tr_content ticket_result,
                    sm_ticketId = tr_ticketId ticket_result,
                    sm_ticketNumber = tr_ticketNumber ticket_result\<rparr>],
                posted))"
proof -
  have "approved_ticket_data request = Some ticketData"
    using assms by (simp add: approved_ticket_data_def)
  then show ?thesis
    using assms(4)
    by (simp add: chat_endpoint_def new_response_def Let_def split: prod.split)
qed

lemma approve_branch_posted:
  assumes "rq_action request = Some (lit ''approve_ticket'')"
      and "rq_ticketData request = Some ticketData" and "ticketData \<noteq> []"
      and "email = or_default (rq_userEmail request) (lit ''user@example.com'')"
  shows "snd (snd (chat_endpoint lib cfg post model db request)) =
           (case (str_field ticketData (lit ''subject''),
                  str_field ticketData (lit ''description''),
                  str_field ticketData (lit ''priority'')) of
              (Some subject, Some description, Some priority) \<Rightarrow>
                (if freshdesk_configured cfg \<and> list_all is_ascii (FRESHDESK_API_KEY cfg) then
                   (case py_int lib priority of
                      None \<Rightarrow> []
                    | Some p \<Rightarrow> [\<lparr>p_description = description, p_subject = subject,
                                  p_email = email, p_priority = p, p_status = 2\<rparr>])
                 else [])
            | _ \<Rightarrow> [])"
proof -
  have "snd (snd (chat_endpoint lib cfg post model db request)) =
          snd (create_ticket_directly lib cfg post ticketData email)"
    unfolding approve_branch [OF assms] by (simp add: Let_def split: prod.split)
  then show ?thesis
    by (simp add: create_ticket_directly_posted create_freshdesk_ticket_posted tool_body_posted
          split: option.split)
qed

text \<open>
  C2, as the code has it. A request whose action is the approval and whose draft is not
  empty is answered by \<open>create_ticket_directly\<close> alone: the result does not depend on
  the model, and no router or agent runs. The endpoint receives exactly one request when
  the draft has a subject, a description and a priority that are strings, the Freshdesk
  settings are there, the API key is ASCII and \<open>int\<close> accepts the priority; in every
  other case it receives none. The request carries the subject and the description of
  the draft, the priority as that integer, and the email of the requesting user, replaced
  by \<open>user@example.com\<close> when it is missing; an email in the draft is not read.
\<close>

theorem approval_files_directly:
  assumes "rq_action request = Some (lit ''approve_ticket'')"
      and "rq_ticketData request = Some ticketData" and "ticketData \<noteq> []"
      and "email = or_default (rq_userEmail request) (lit ''user@example.com'')"
  shows "chat_endpoint lib cfg post model db request =
           (let (ticket_result, posted) = create_ticket_directly lib cfg post ticketData email
            in (Inr \<lparr>rs_success = True, rs_content = tr_content ticket_result,
                     rs_conversationId = rq_conversationId request, rs_needsApproval = False,
                     rs_ticketSummary = None, rs_interactiveButtons = None,
                     rs_ticketCreated = tr_success ticket_result,
                     rs_ticketId = tr_ticketId ticket_result,
                     rs_ticketNumber = tr_ticketNumber ticket_result\<rparr>,
                append_messages db (rq_conversationId request)
                  [\<lparr>sm_role = lit ''assistant'', sm_content = tr_content ticket_result,
                    sm_ticketId = tr_ticketId ticket_result,
                    sm_ticketNumber = tr_ticketNumber ticket_result\<rparr>],
                posted))
         \<and> snd (snd (chat_endpoint lib cfg post model db request)) =
           (case (str_field ticketData (lit ''subject''),
                  str_field ticketData (lit ''description''),
                  str_field ticketData (lit ''priority'')) of
              (Some subject, Some description, Some priority) \<Rightarrow>
                (if freshdesk_configured cfg \<and> list_all is_ascii (FRESHDESK_API_KEY cfg) then
                   (case py_int lib priority of
                      None \<Rightarrow> []
                    | Some p \<Rightarrow> [\<lparr>p_description = description, p_subject = subject,
                                  p_email = email, p_priority = p, p_status = 2\<rparr>])
                 else [])
            | _ \<Rightarrow> [])"
  using approve_branch [OF assms] approve_branch_posted [OF assms] by (rule conjI)

lemma example_approval:
  "rq_action (example_request ''yes'' (Some ''approve_ticket'') (Some draft))
     = Some (lit ''approve_ticket'')"
  "rq_ticketData (example_request ''yes'' (Some ''approve_ticket'') (Some draft)) = Some draft"
  "lit ''u@x.com'' = or_default
      (rq_userEmail (example_request ''yes'' (Some ''approve_ticket'') (Some draft)))
      (lit ''user@example.com'')"
  by (simp_all add: example_request_def or_default_def)

lemma example_drafts_not_empty: "example_draft \<noteq> []" "numeric_draft \<noteq> []"
  by (simp_all add: example_draft_def numeric_draft_def)

theorem approval_files_directly_witness:
  "rq_action (example_request ''yes'' (Some ''approve_ticket'') (Some example_draft))
     = Some (lit ''approve_ticket'')
   \<and> rq_ticketData (example_request ''yes'' (Some ''approve_ticket'') (Some example_draft))
     = Some example_draft
   \<and> example_draft \<noteq> []
   \<and> snd (snd (chat_endpoint example_library example_config gateway_created model_raises
                 empty_db
                 (example_request ''yes'' (Some ''approve_ticket'') (Some example_draft)))) =
       [\<lparr>p_description = lit ''VPN does not connect'', p_subject = lit ''VPN down'',
         p_email = lit ''u@x.com'', p_priority = 3, p_status = 2\<rparr>]"
proof -
  note t = approval_files_directly
             [OF example_approval(1,2) example_drafts_not_empty(1) example_approval(3),
              of example_library example_config gateway_created model_raises empty_db]
  have "snd (snd (chat_endpoint example_library example_config gateway_created model_raises
                 empty_db
                 (example_request ''yes'' (Some ''approve_ticket'') (Some example_draft)))) =
       [\<lparr>p_description = lit ''VPN does not connect'', p_subject = lit ''VPN down'',
         p_email = lit ''u@x.com'', p_priority = 3, p_status = 2\<rparr>]"
    using conjunct2 [OF t]
    by (simp add: example_draft_fields py_int_examples example_config_usable)
  with example_approval(1,2) example_drafts_not_empty(1) show ?thesis by blast
qed

theorem approval_email_counterexample:
  "map_of example_draft (lit ''email'') = Some (PStr (lit ''a@b.com''))
   \<and> snd (snd (chat_endpoint example_library example_config gateway_created model_raises
                 empty_db
                 (example_request ''yes'' (Some ''approve_ticket'') (Some example_draft)))) =
       [\<lparr>p_description = lit ''VPN does not connect'', p_subject = lit ''VPN down'',
         p_email = lit ''u@x.com'', p_priority = 3, p_status = 2\<rparr>]
   \<and> snd (snd (chat_endpoint example_library default_config gateway_created model_raises
                 empty_db
                 (example_request ''yes'' (Some ''approve_ticket'') (Some example_draft)))) = []
   \<and> map_of numeric_draft (lit ''priority'') = Some (PInt 3)
   \<and> snd (snd (chat_endpoint example_library example_config gateway_created model_raises
                 empty_db
                 (example_request ''yes'' (Some ''approve_ticket'') (Some numeric_draft)))) = []"
proof -
  have none: "snd (snd (chat_endpoint example_library default_config gateway_created
                 model_raises empty_db
                 (example_request ''yes'' (Some ''approve_ticket'') (Some example_draft)))) = []"
    using approve_branch_posted
            [OF example_approval(1,2) example_drafts_not_empty(1) example_approval(3),
             of example_library default_config gateway_created model_raises empty_db]
          default_config_unusable
    by (simp add: example_draft_fields)
  have one: "snd (snd (chat_endpoint example_library example_config gateway_created
                 model_raises empty_db
                 (example_request ''yes'' (Some ''approve_ticket'') (Some example_draft)))) =
       [\<lparr>p_description = lit ''VPN does not connect'', p_subject = lit ''VPN down'',
         p_email = lit ''u@x.com'', p_priority = 3, p_status = 2\<rparr>]"
    using approve_branch_posted
            [OF example_approval(1,2) example_drafts_not_empty(1) example_approval(3),
             of example_library example_config gateway_created model_raises empty_db]
    by (simp add: example_draft_fields py_int_examples example_config_usable)
  have num: "snd (snd (chat_endpoint example_library example_config gateway_created
                 model_raises empty_db
                 (example_request ''yes'' (Some ''approve_ticket'') (Some numeric_draft)))) = []"
    using approve_branch_posted
            [OF example_approval(1,2) example_drafts_not_empty(2) example_approval(3),
             of example_library example_config gateway_created model_raises empty_db]
    by (simp add: numeric_draft_fields split: option.split)
  have "map_of example_draft (lit ''email'') = Some (PStr (lit ''a@b.com''))"
    by (simp add: example_draft_def)
  with one none num numeric_draft_fields(4) show ?thesis by blast
qed

section \<open>The tool loops\<close>

lemma run_tool_calls_observations:
  "length (fst (run_tool_calls lib tools tcs)) = length tcs
   \<and> filter is_AIMessage (fst (run_tool_calls lib tools tcs)) = []"
  by (induction tcs) (auto simp add: Let_def split: prod.split option.split sum.split)

lemma ticket_agent_one_round:
  assumes "always_requests model"
  shows "\<exists>c tcs observations.
           model TicketPrompt (map fst (ticket_agent_tools lib cfg post)) (messages state)
             = Inr (c, tcs)
           \<and> tcs \<noteq> []
           \<and> fst (ticket_agent lib cfg post model state) =
               Inr (state\<lparr>messages := messages state @ AIMessage c tcs # observations,
                          current_agent := lit ''ticket''\<rparr>)
           \<and> length observations = length tcs
           \<and> filter is_AIMessage observations = []"
proof -
  from assms obtain c tc tcs where
    m: "model TicketPrompt (map fst (ticket_agent_tools lib cfg post)) (messages state)
          = Inr (c, tc # tcs)"
    unfolding always_requests_def by blast
  let ?obs = "fst (run_tool_calls lib (ticket_agent_tools lib cfg post) (tc # tcs))"
  have "fst (ticket_agent lib cfg post model state) =
          Inr (state\<lparr>messages := messages state @ AIMessage c (tc # tcs) # ?obs,
                     current_agent := lit ''ticket''\<rparr>)"
    using m
    by (simp add: ticket_agent_def ticket_analysis_node_def should_use_tools_def
          last_message_def tool_node_def Let_def split: prod.split)
  with m run_tool_calls_observations [of lib "ticket_agent_tools lib cfg post" "tc # tcs"]
  show ?thesis by blast
qed

lemma ticket_turn_reply:
  assumes "always_requests model"
      and "any_keyword_in ticket_keywords (py_lower lib message)"
      and "OPENAI_API_KEY cfg \<noteq> []"
      and "OPENAI_API_KEY cfg \<noteq> lit ''your-openai-api-key-here''"
  shows "\<exists>c tcs result.
           model TicketPrompt (map fst (ticket_agent_tools lib cfg post))
             (convert_history history @ [HumanMessage message]) = Inr (c, tcs)
           \<and> fst (run_multi_agent_workflow lib cfg post model message history uid cid email)
               = Inr result
           \<and> wr_content result = c"
proof -
  let ?st = "\<lparr>messages = convert_history history @ [HumanMessage message], user_id = uid,
               conversation_id = cid, user_email = email, current_agent = [],
               ticket_data = None, needs_approval = False\<rparr>"
  from ticket_agent_one_round [OF assms(1), of lib cfg post ?st]
  obtain c tcs obs where
    m: "model TicketPrompt (map fst (ticket_agent_tools lib cfg post))
          (convert_history history @ [HumanMessage message]) = Inr (c, tcs)"
    and r: "fst (ticket_agent lib cfg post model ?st) =
               Inr (?st\<lparr>messages := messages ?st @ AIMessage c tcs # obs,
                          current_agent := lit ''ticket''\<rparr>)"
    and o: "filter is_AIMessage obs = []"
    by auto
  have route: "supervisor_routing lib ?st = ''ticket''"
    using assms(2) by (simp add: supervisor_routing_def)
  obtain posted where
    t: "ticket_agent lib cfg post model ?st =
          (Inr (?st\<lparr>messages := messages ?st @ AIMessage c tcs # obs,
                     current_agent := lit ''ticket''\<rparr>), posted)"
    using r by (cases "ticket_agent lib cfg post model ?st") auto
  have "\<exists>result. fst (run_multi_agent_workflow lib cfg post model message history uid cid email)
                    = Inr result
          \<and> wr_content result = c"
    using assms(3,4) route t o
    by (simp add: run_multi_agent_workflow_def multi_agent_workflow_def Let_def
          split: prod.split)
  with m show ?thesis by blast
qed

lemma langgraph_workflow_hits_limit:
  assumes "always_requests model"
  shows "fst (langgraph_workflow limit node lib cfg post model ms) = Inl GraphRecursionError"
proof (induction limit arbitrary: node ms)
  case 0
  show ?case by simp
next
  case (Suc limit)
  show ?case
  proof (cases node)
    case ChatbotNode
    let ?p = "if ms = [] \<or> \<not> list_ex (\<lambda>msg. is_AIMessage msg
                                        \<and> py_in (lit ''Fixie'') (msg_content msg)) ms
               then ChatbotPrompt else NoPrompt"
    from assms obtain c tc tcs where
      m: "model ?p (map fst (chatbot_tools lib cfg post)) ms = Inr (c, tc # tcs)"
      unfolding always_requests_def by blast
    then have "chatbot lib cfg post model ms = Inr (ms @ [AIMessage c (tc # tcs)])"
      by (simp add: chatbot_def Let_def)
    with ChatbotNode show ?thesis
      using Suc.IH [of ToolsNode "ms @ [AIMessage c (tc # tcs)]"]
      by (simp add: should_continue_def last_message_def)
  next
    case ToolsNode
    then show ?thesis
      using Suc.IH [of ChatbotNode]
      by (simp add: Let_def split: prod.split) (metis fst_conv)
  qed
qed

lemma model_requests_always: "always_requests (model_requests reply)"
  by (simp add: always_requests_def model_requests_def)

lemma model_requests_reply:
  "map_sum id wr_content
     (fst (run_multi_agent_workflow example_library example_config gateway_created
             (model_requests reply)
             (lit ''please escalate this'') [] (lit ''u1'') (lit ''c1'') (lit ''u@x.com'')))
     = Inr reply"
proof -
  have k: "any_keyword_in ticket_keywords
             (py_lower example_library (lit ''please escalate this''))"
    by (simp add: lower_examples keyword_examples)
  from ticket_turn_reply [OF model_requests_always k example_openai_key,
         of reply gateway_created "[]" "lit ''u1''" "lit ''c1''" "lit ''u@x.com''"]
  show ?thesis by (auto simp add: model_requests_def)
qed

text \<open>
  C4, as the code has it. Against a model that asks for a tool on every call, the graph
  of the ticket agent makes one model call and one round of tools and stops, since no
  edge leads back from its tools: the messages of the turn gain that one assistant
  message and one observation for each of its tool calls, and the reply of the turn is
  the content the model gave with its request. No round limit and no degraded reply
  exist in the code. The graph of \<open>langgraph_workflow.py\<close>, which does lead back from
  the tools to the chatbot, has no bound of its own either: against such a model it is
  ended by the recursion limit of the graph library alone, whatever that limit is, and
  it ends with \<open>GraphRecursionError\<close>, not with a reply.
\<close>

theorem tool_loops_under_requesting_model:
  assumes "always_requests model"
  shows "(\<exists>c tcs observations.
            model TicketPrompt (map fst (ticket_agent_tools lib cfg post)) (messages state)
              = Inr (c, tcs)
            \<and> tcs \<noteq> []
            \<and> fst (ticket_agent lib cfg post model state) =
                Inr (state\<lparr>messages := messages state @ AIMessage c tcs # observations,
                           current_agent := lit ''ticket''\<rparr>)
            \<and> length observations = length tcs
            \<and> filter is_AIMessage observations = [])
         \<and> (any_keyword_in ticket_keywords (py_lower lib message)
              \<and> OPENAI_API_KEY cfg \<noteq> []
              \<and> OPENAI_API_KEY cfg \<noteq> lit ''your-openai-api-key-here'' \<longrightarrow>
            (\<exists>c tcs result.
               model TicketPrompt (map fst (ticket_agent_tools lib cfg post))
                 (convert_history history @ [HumanMessage message]) = Inr (c, tcs)
               \<and> fst (run_multi_agent_workflow lib cfg post model message history uid cid
                         email) = Inr result
               \<and> wr_content result = c))
         \<and> fst (langgraph_workflow limit ChatbotNode lib cfg post model ms)
             = Inl GraphRecursionError"
  using ticket_agent_one_round [OF assms, of lib cfg post state]
        ticket_turn_reply [OF assms, of lib message cfg post history uid cid email]
        langgraph_workflow_hits_limit [OF assms, of limit ChatbotNode lib cfg post ms]
  by blast

theorem tool_loops_under_requesting_model_witness:
  "always_requests (model_requests (lit ''On it''))
   \<and> any_keyword_in ticket_keywords (py_lower example_library (lit ''please escalate this''))
   \<and> OPENAI_API_KEY example_config \<noteq> []
   \<and> OPENAI_API_KEY example_config \<noteq> lit ''your-openai-api-key-here''
   \<and> (\<exists>c tcs result.
         model_requests (lit ''On it'') TicketPrompt
           (map fst (ticket_agent_tools example_library example_config gateway_created))
           (convert_history [] @ [HumanMessage (lit ''please escalate this'')]) = Inr (c, tcs)
         \<and> fst (run_multi_agent_workflow example_library example_config gateway_created
                   (model_requests (lit ''On it'')) (lit ''please escalate this'') []
                   (lit ''u1'') (lit ''c1'') (lit ''u@x.com'')) = Inr result
         \<and> wr_content result = c)
   \<and> fst (langgraph_workflow default_recursion_limit ChatbotNode example_library
            example_config gateway_created (model_requests (lit ''On it''))
            [HumanMessage (lit ''please escalate this'')]) = Inl GraphRecursionError"
proof -
  have k: "any_keyword_in ticket_keywords
             (py_lower example_library (lit ''please escalate this''))"
    by (simp add: lower_examples keyword_examples)
  from tool_loops_under_requesting_model
          [OF model_requests_always [of "lit ''On it''"],
           where limit = default_recursion_limit and lib = example_library
             and cfg = example_config and post = gateway_created
             and ms = "[HumanMessage (lit ''please escalate this'')]"
             and message = "lit ''please escalate this''" and history = "[]"
             and uid = "lit ''u1''" and cid = "lit ''c1''" and email = "lit ''u@x.com''"]
       model_requests_always [of "lit ''On it''"] k example_openai_key
  show ?thesis by blast
qed

theorem degraded_reply_counterexample:
  "always_requests (model_requests (lit ''On it''))
   \<and> always_requests (model_requests (lit ''Filing now''))
   \<and> map_sum id wr_content
        (fst (run_multi_agent_workflow example_library example_config gateway_created
                (model_requests (lit ''On it''))
                (lit ''please escalate this'') [] (lit ''u1'') (lit ''c1'') (lit ''u@x.com'')))
       = Inr (lit ''On it'')
   \<and> map_sum id wr_content
        (fst (run_multi_agent_workflow example_library example_config gateway_created
                (model_requests (lit ''Filing now''))
                (lit ''please escalate this'') [] (lit ''u1'') (lit ''c1'') (lit ''u@x.com'')))
       = Inr (lit ''Filing now'')
   \<and> fst (langgraph_workflow default_recursion_limit ChatbotNode example_library
            example_config gateway_created (model_requests (lit ''On it''))
            [HumanMessage (lit ''please escalate this'')]) = Inl GraphRecursionError"
  using model_requests_always [of "lit ''On it''"]
        model_requests_always [of "lit ''Filing now''"]
        model_requests_reply [of "lit ''On it''"] model_requests_reply [of "lit ''Filing now''"]
        langgraph_workflow_hits_limit [OF model_requests_always [of "lit ''On it''"],
          where limit = default_recursion_limit and node = ChatbotNode
            and lib = example_library and cfg = example_config and post = gateway_created
            and ms = "[HumanMessage (lit ''please escalate this'')]"]
  by blast

section \<open>What a filing reports\<close>






lemma strip_prefix_iff: "strip_prefix p s = Some r \<longleftrightarrow> s = p @ r"
  by (induction p s rule: strip_prefix.induct) auto

lemma match_ticket_id_here_sound:
  assumes "match_ticket_id_here lib s = Some g"
  shows "\<exists>after. s = lit ''Ticket ID:** #'' @ g @ after \<and> g \<noteq> []
           \<and> list_all (is_word_char lib) g
           \<and> (after = [] \<or> \<not> is_word_char lib (hd after))"
proof -
  obtain rest where r: "strip_prefix (lit ''Ticket ID:** #'') s = Some rest"
    using assms unfolding match_ticket_id_here_def
    by (cases "strip_prefix (lit ''Ticket ID:** #'') s") simp_all
  have "takeWhile (is_word_char lib) rest = g \<and> g \<noteq> []"
    using assms r unfolding match_ticket_id_here_def
    by (cases "takeWhile (is_word_char lib) rest") auto
  then have g: "takeWhile (is_word_char lib) rest = g" and n: "g \<noteq> []" by simp_all
  from r have s: "s = lit ''Ticket ID:** #'' @ rest" by (simp only: strip_prefix_iff)
  have rest: "rest = g @ dropWhile (is_word_char lib) rest"
    using g takeWhile_dropWhile_id [of "is_word_char lib" rest] by simp
  have w: "list_all (is_word_char lib) g"
    using g by (auto simp add: list_all_iff dest: set_takeWhileD)
  have "dropWhile (is_word_char lib) rest = []
          \<or> \<not> is_word_char lib (hd (dropWhile (is_word_char lib) rest))"
    using hd_dropWhile [of "is_word_char lib" rest] by blast
  with s rest n w show ?thesis by metis
qed

lemma re_search_ticket_id_sound:
  "re_search_ticket_id lib s = Some g \<Longrightarrow>
     \<exists>before after. s = before @ lit ''Ticket ID:** #'' @ g @ after \<and> g \<noteq> []
        \<and> list_all (is_word_char lib) g
        \<and> (after = [] \<or> \<not> is_word_char lib (hd after))"
proof (induction s)
  case Nil
  then show ?case by simp
next
  case (Cons c cs)
  show ?case
  proof (cases "match_ticket_id_here lib (c # cs)")
    case None
    with Cons.prems have "re_search_ticket_id lib cs = Some g" by simp
    from Cons.IH [OF this] obtain before after where
      "cs = before @ lit ''Ticket ID:** #'' @ g @ after" "g \<noteq> []"
      "list_all (is_word_char lib) g"
      "after = [] \<or> \<not> is_word_char lib (hd after)" by blast
    then have "c # cs = (c # before) @ lit ''Ticket ID:** #'' @ g @ after" by simp
    with \<open>g \<noteq> []\<close> \<open>list_all (is_word_char lib) g\<close>
         \<open>after = [] \<or> \<not> is_word_char lib (hd after)\<close>
    show ?thesis by blast
  next
    case (Some g')
    with Cons.prems have "g' = g" by simp
    with Some match_ticket_id_here_sound [of lib "c # cs" g] obtain after where
      "c # cs = [] @ lit ''Ticket ID:** #'' @ g @ after" "g \<noteq> []"
      "list_all (is_word_char lib) g"
      "after = [] \<or> \<not> is_word_char lib (hd after)" by auto
    then show ?thesis by blast
  qed
qed



lemma re_search_needs_marker:
  "\<not> py_in (lit ''Ticket ID:'') s \<Longrightarrow> re_search_ticket_id lib s = None"
proof (rule ccontr)
  assume n: "\<not> py_in (lit ''Ticket ID:'') s" and "re_search_ticket_id lib s \<noteq> None"
  then obtain g where "re_search_ticket_id lib s = Some g" by auto
  from re_search_ticket_id_sound [OF this] obtain before after where
    "s = before @ lit ''Ticket ID:** #'' @ g @ after" by blast
  then have "s = before @ lit ''Ticket ID:'' @ (lit ''** #'' @ g @ after)"
    by (simp add: lit_def)
  then have "py_in (lit ''Ticket ID:'') s" unfolding py_in_iff occurs_in_def by blast
  with n show False by contradiction
qed













lemma ticket_report_single:
  "ticket_report lib [ToolMessage t] =
     (py_in check_mark t, if py_in check_mark t then re_search_ticket_id lib t else None)"
  using re_search_needs_marker [of t lib]
  by (auto simp add: ticket_report_def extract_ticket_id_def Let_def)















end
